theory Spec2Isabelle
  imports Main "HOL-Library.Sublist" "HOL-Library.Signed_Division"
begin

section \<open>Go strings\<close>

text \<open>
  A Go string is represented by the sequence of Unicode code points (runes) that ranging
  over it yields. Every string this program handles comes out of a JSON decoder, which
  yields valid UTF-8, so the representation loses nothing. \<open>str\<close> turns an ASCII literal
  into such a sequence; a rune beyond ASCII is written as its number.
\<close>

type_synonym rune = nat
type_synonym gostring = "rune list"

definition str :: "string \<Rightarrow> gostring" where
  "str s = map of_char s"

text \<open>
  \<open>unicode.IsSpace\<close>: tab, line feed, vertical tab, form feed, carriage return, space,
  U+0085, U+00A0, U+1680, U+2000 to U+200A, U+2028, U+2029, U+202F, U+205F and U+3000.
\<close>

definition isSpace :: "rune \<Rightarrow> bool" where
  "isSpace r \<longleftrightarrow>
     r \<in> {9, 10, 11, 12, 13, 32, 133, 160, 5760, 8232, 8233, 8239, 8287, 12288}
     \<or> (8192 \<le> r \<and> r \<le> 8202)"

text \<open>
  \<open>strings.FieldsFunc\<close> walks over the runes once: \<open>cur\<close> is the field under way (empty when
  the walk is between fields); a rune for which \<open>f\<close> holds closes it. \<open>strings.Fields\<close> is
  \<open>FieldsFunc\<close> with \<open>unicode.IsSpace\<close>.
\<close>

fun FieldsFunc_loop :: "(rune \<Rightarrow> bool) \<Rightarrow> gostring \<Rightarrow> gostring \<Rightarrow> gostring list" where
  "FieldsFunc_loop f cur [] = (if cur = [] then [] else [cur])"
| "FieldsFunc_loop f cur (r # rs) =
     (if f r
      then (if cur = [] then FieldsFunc_loop f [] rs else cur # FieldsFunc_loop f [] rs)
      else FieldsFunc_loop f (cur @ [r]) rs)"

definition FieldsFunc :: "gostring \<Rightarrow> (rune \<Rightarrow> bool) \<Rightarrow> gostring list" where
  "FieldsFunc s f = FieldsFunc_loop f [] s"

definition Fields :: "gostring \<Rightarrow> gostring list" where
  "Fields s = FieldsFunc s isSpace"

text \<open>\<open>strings.TrimSpace\<close> drops the white space in front and behind.\<close>

definition TrimSpace :: "gostring \<Rightarrow> gostring" where
  "TrimSpace s = rev (dropWhile isSpace (rev (dropWhile isSpace s)))"

text \<open>\<open>strings.TrimPrefix\<close> and \<open>strings.TrimSuffix\<close> cut the given text off if it is there.\<close>

definition TrimPrefix :: "gostring \<Rightarrow> gostring \<Rightarrow> gostring" where
  "TrimPrefix s p = (if prefix p s then drop (length p) s else s)"

definition TrimSuffix :: "gostring \<Rightarrow> gostring \<Rightarrow> gostring" where
  "TrimSuffix s p = (if suffix p s then take (length s - length p) s else s)"

section \<open>The word counts\<close>

text \<open>\<open>utils.GetTotalWords\<close>.\<close>

definition GetTotalWords :: "gostring \<Rightarrow> int" where
  "GetTotalWords input = int (length (Fields input))"

text \<open>\<open>getTotalWords\<close> of the review handler, with its guard for an input that trims to nothing.\<close>

definition getTotalWords :: "gostring \<Rightarrow> int" where
  "getTotalWords input =
     (if TrimSpace input = [] then 0 else int (length (Fields input)))"

text \<open>
  What the specification counts, in its own words: the maximal whitespace-delimited tokens.
  \<open>maximalToken s i j\<close> says that the runes of \<open>s\<close> from index \<open>i\<close> up to, not including,
  index \<open>j\<close> form a token: a non-empty run without white space that is bounded on each side
  by white space or by the end of the string. \<open>tokenStart s i\<close> says that a token begins at
  index \<open>i\<close>.
\<close>

definition maximalToken :: "gostring \<Rightarrow> nat \<Rightarrow> nat \<Rightarrow> bool" where
  "maximalToken s i j \<longleftrightarrow>
     i < j \<and> j \<le> length s
     \<and> (\<forall>k. i \<le> k \<and> k < j \<longrightarrow> \<not> isSpace (s ! k))
     \<and> (i = 0 \<or> isSpace (s ! (i - 1)))
     \<and> (j = length s \<or> isSpace (s ! j))"

definition tokenStart :: "gostring \<Rightarrow> nat \<Rightarrow> bool" where
  "tokenStart s i \<longleftrightarrow> i < length s \<and> \<not> isSpace (s ! i) \<and> (i = 0 \<or> isSpace (s ! (i - 1)))"

section \<open>Errors and number formatting\<close>

text \<open>
  A Go \<open>error\<close> value is represented by its message (what \<open>err.Error()\<close> returns); a run-time
  panic is a separate alternative, so that every way a function can fail to return normally
  is a value of the model.
\<close>

datatype error =
    Error gostring
  | PanicDivideByZero
  | PanicSliceBounds

text \<open>Decimal rendering of an integer, as \<open>strconv.Itoa\<close> and the verb \<open>%d\<close> produce it.\<close>

fun natDigits :: "nat \<Rightarrow> gostring" where
  "natDigits n = (if n < 10 then [48 + n] else natDigits (n div 10) @ [48 + n mod 10])"

declare natDigits.simps [simp del]

definition Itoa :: "int \<Rightarrow> gostring" where
  "Itoa i = (if i < 0 then 45 # natDigits (nat (- i)) else natDigits (nat i))"

text \<open>
  \<open>strings.ToUpper\<close> and \<open>strings.ToLower\<close> map every rune through the Unicode case tables.
  On ASCII the mapping is fixed; the tables for the runes beyond ASCII belong to the Go
  standard library and are a parameter (\<open>tbl\<close>) of the model.
\<close>

definition ToUpper :: "(rune \<Rightarrow> rune) \<Rightarrow> gostring \<Rightarrow> gostring" where
  "ToUpper tbl s =
     map (\<lambda>r. if r < 128 then (if 97 \<le> r \<and> r \<le> 122 then r - 32 else r) else tbl r) s"

definition ToLower :: "(rune \<Rightarrow> rune) \<Rightarrow> gostring \<Rightarrow> gostring" where
  "ToLower tbl s =
     map (\<lambda>r. if r < 128 then (if 65 \<le> r \<and> r \<le> 90 then r + 32 else r) else tbl r) s"

section \<open>The review handler\<close>

record GenerateCommentRequest =
  Content :: gostring
  UserLevel :: gostring
  Requirement :: gostring
  Category :: gostring
  Language :: gostring

definition MIN_TOTAL_WORDS :: int where
  "MIN_TOTAL_WORDS = 10"

definition MAX_TOTAL_WORDS :: int where
  "MAX_TOTAL_WORDS = 1000"

text \<open>\<open>CACHE_DURATION\<close> is one hour; durations and instants are counted in nanoseconds.\<close>

definition CACHE_DURATION :: int where
  "CACHE_DURATION = 1 * 3600000000000"

definition reviewEnglishLevels :: "gostring \<rightharpoonup> gostring" where
  "reviewEnglishLevels = map_of
     [(str ''A1'', str ''A1 - Beginner''),
      (str ''A2'', str ''A2 - Elementary''),
      (str ''B1'', str ''B1 - Intermediate''),
      (str ''B2'', str ''B2 - Upper Intermediate''),
      (str ''C1'', str ''C1 - Advanced''),
      (str ''C2'', str ''C2 - Proficient'')]"

definition writingCategories :: "gostring \<rightharpoonup> gostring" where
  "writingCategories = map_of
     [(str ''essay'', str ''Academic Essay''),
      (str ''letter'', str ''Formal/Informal Letter''),
      (str ''report'', str ''Report Writing''),
      (str ''article'', str ''Article Writing''),
      (str ''story'', str ''Creative Writing''),
      (str ''email'', str ''Email Writing''),
      (str ''description'', str ''Descriptive Writing''),
      (str ''opinion'', str ''Opinion Writing'')]"

text \<open>The messages of \<open>validateReviewRequest\<close>, rune by rune as the source spells them.\<close>

definition errEmptyContent :: gostring where
  "errEmptyContent =
     str ''n'' @ [7897] @ str ''i dung b'' @ [224] @ str ''i vi'' @ [7871] @ str ''t kh'' @ [244] @ str ''ng '' @ [273, 432, 7907] @ str ''c '' @ [273, 7875] @ str '' tr'' @ [7889] @ str ''ng''"

definition errTooShort :: "int \<Rightarrow> gostring" where
  "errTooShort n =
     (str ''b'' @ [224] @ str ''i vi'' @ [7871] @ str ''t ph'' @ [7843] @ str ''i d'' @ [224] @ str ''i t'' @ [7889] @ str ''i thi'' @ [7875] @ str ''u '') @ Itoa n @ (str '' t'' @ [7915])"

definition errTooLong :: "int \<Rightarrow> gostring" where
  "errTooLong n =
     (str ''b'' @ [224] @ str ''i vi'' @ [7871] @ str ''t kh'' @ [244] @ str ''ng '' @ [273, 432, 7907] @ str ''c d'' @ [224] @ str ''i h'' @ [417] @ str ''n '') @ Itoa n @ (str '' t'' @ [7915])"

definition errInvalidLevel :: gostring where
  "errInvalidLevel =
     str ''tr'' @ [236] @ str ''nh '' @ [273, 7897] @ str '' ti'' @ [7871] @ str ''ng Anh kh'' @ [244] @ str ''ng h'' @ [7907] @ str ''p l'' @ [7879] @ str '' (A1, A2, B1, B2, C1, C2)''"

definition validateReviewRequest :: "(rune \<Rightarrow> rune) \<Rightarrow> GenerateCommentRequest \<Rightarrow> error option" where
  "validateReviewRequest tbl request =
     (let content = TrimSpace (Content request) in
      if content = [] then Some (Error errEmptyContent)
      else
        let wordCount = getTotalWords content in
        if wordCount < MIN_TOTAL_WORDS then Some (Error (errTooShort MIN_TOTAL_WORDS))
        else if wordCount > MAX_TOTAL_WORDS then Some (Error (errTooLong MAX_TOTAL_WORDS))
        else if UserLevel request \<noteq> []
          then (case reviewEnglishLevels (ToUpper tbl (UserLevel request)) of
                  None \<Rightarrow> Some (Error errInvalidLevel)
                | Some _ \<Rightarrow> None)
        else None)"

text \<open>
  The prompt template of \<open>buildReviewPrompt\<close>, cut at its six format verbs
  (\<open>%s %s %s %s %d %s\<close>).
\<close>

definition reviewPromptText0 :: gostring where
  "reviewPromptText0 =
     str ''You are an expert English teacher and IELTS examiner. Analyze the following English writing sample and provide a comprehensive review.'' @ [10]
     @ [10]
     @ str ''WRITING SAMPLE TO ANALYZE:'' @ [10]
     @ [34]"

definition reviewPromptText1 :: gostring where
  "reviewPromptText1 =
     [34, 10]
     @ [10]
     @ str ''CONTEXT INFORMATION:'' @ [10]
     @ str ''- Student'' @ [39] @ str ''s declared level: ''"

definition reviewPromptText2 :: gostring where
  "reviewPromptText2 =
     [10]
     @ str ''- Writing category: ''"

definition reviewPromptText3 :: gostring where
  "reviewPromptText3 =
     [10]
     @ str ''- Specific requirement: ''"

definition reviewPromptText4 :: gostring where
  "reviewPromptText4 =
     [10]
     @ str ''- Word count: ''"

definition reviewPromptText5 :: gostring where
  "reviewPromptText5 =
     [10]
     @ [10]
     @ str ''ANALYSIS REQUIREMENTS:'' @ [10]
     @ str ''1. Estimate the actual English level (A1-C2) based on the writing quality'' @ [10]
     @ str ''2. Score each criterion from 0-10:'' @ [10]
     @ str ''   - Grammar: Accuracy, complexity, range of structures'' @ [10]
     @ str ''   - Vocabulary: Range, accuracy, appropriateness'' @ [10]
     @ str ''   - Coherence: Logical flow, linking, organization'' @ [10]
     @ str ''   - Task Response: Meeting requirements, completeness'' @ [10]
     @ str ''   - Overall: Holistic impression'' @ [10]
     @ [10]
     @ str ''3. Provide specific feedback covering:'' @ [10]
     @ str ''   - 3-5 strength points (what the student does well)'' @ [10]
     @ str ''   - 3-5 improvement areas (what needs work)'' @ [10]
     @ str ''   - 5-8 detailed suggestions with examples'' @ [10]
     @ str ''   - overall_feedback: T'' @ [7893] @ str ''ng nh'' @ [7853] @ str ''n x'' @ [233] @ str ''t chung v'' @ [7873] @ str '' b'' @ [224] @ str ''i vi'' @ [7871] @ str ''t (b'' @ [7855] @ str ''t bu'' @ [7897] @ str ''c)'' @ [10]
     @ [10]
     @ str ''4. If there are significant errors, provide a corrected version'' @ [10]
     @ [10]
     @ str ''FORMATTING REQUIREMENTS:'' @ [10]
     @ str ''Return ONLY valid JSON without markdown formatting.'' @ [10]
     @ str ''JSON ph'' @ [7843] @ str ''i c'' @ [243] @ str '' c'' @ [225] @ str ''c tr'' @ [432, 7901] @ str ''ng sau (b'' @ [7855] @ str ''t bu'' @ [7897] @ str ''c):'' @ [10]
     @ str ''- '' @ [34] @ str ''estimated_level'' @ [34, 10]
     @ str ''- '' @ [34] @ str ''scores'' @ [34] @ str '' (bao g'' @ [7891] @ str ''m: '' @ [34] @ str ''grammar'' @ [34] @ str '', '' @ [34] @ str ''vocabulary'' @ [34] @ str '', '' @ [34] @ str ''coherence'' @ [34] @ str '', '' @ [34] @ str ''task_response'' @ [34] @ str '', '' @ [34] @ str ''overall'' @ [34] @ str '', t'' @ [7845] @ str ''t c'' @ [7843] @ str '' '' @ [273, 7873] @ str ''u l'' @ [224] @ str '' s'' @ [7889] @ str '' t'' @ [7915] @ str '' 0 '' @ [273, 7871] @ str ''n 10)'' @ [10]
     @ str ''- '' @ [34] @ str ''overall_feedback'' @ [34, 10]
     @ str ''- '' @ [34] @ str ''strength_points'' @ [34, 10]
     @ str ''- '' @ [34] @ str ''improvement_areas'' @ [34, 10]
     @ str ''- '' @ [34] @ str ''suggestions'' @ [34] @ str '' (m'' @ [7843] @ str ''ng c'' @ [225] @ str ''c object, m'' @ [7895] @ str ''i object g'' @ [7891] @ str ''m: '' @ [34] @ str ''category'' @ [34] @ str '', '' @ [34] @ str ''issue'' @ [34] @ str '', '' @ [34] @ str ''suggestion'' @ [34] @ str '', '' @ [34] @ str ''example'' @ [34] @ str '', '' @ [34] @ str ''priority'' @ [34] @ str '')'' @ [10]
     @ str ''- '' @ [34] @ str ''corrected_version'' @ [34] @ str '' (n'' @ [7871] @ str ''u c'' @ [243] @ str '')'' @ [10]
     @ [10]
     @ str ''V'' @ [237] @ str '' d'' @ [7909] @ str '' tr'' @ [432, 7901] @ str ''ng '' @ [34] @ str ''suggestions'' @ [34] @ str '':'' @ [10]
     @ [34] @ str ''suggestions'' @ [34] @ str '': ['' @ [10]
     @ str ''  {'' @ [10]
     @ str ''    '' @ [34] @ str ''category'' @ [34] @ str '': '' @ [34] @ str ''Grammar'' @ [34] @ str '','' @ [10]
     @ str ''    '' @ [34] @ str ''issue'' @ [34] @ str '': '' @ [34] @ str ''Subject-verb agreement'' @ [34] @ str '','' @ [10]
     @ str ''    '' @ [34] @ str ''suggestion'' @ [34] @ str '': '' @ [34] @ str ''Ki'' @ [7875] @ str ''m tra s'' @ [7921] @ str '' h'' @ [242] @ str ''a h'' @ [7907] @ str ''p gi'' @ [7919] @ str ''a ch'' @ [7911] @ str '' ng'' @ [7919] @ str '' v'' @ [224] @ str '' '' @ [273, 7897] @ str ''ng t'' @ [7915] @ str ''.'' @ [34] @ str '','' @ [10]
     @ str ''    '' @ [34] @ str ''example'' @ [34] @ str '': '' @ [34] @ str ''Incorrect: '' @ [39] @ str ''She go to school.'' @ [39] @ str '' Correct: '' @ [39] @ str ''She goes to school.'' @ [39, 34] @ str '','' @ [10]
     @ str ''    '' @ [34] @ str ''priority'' @ [34] @ str '': '' @ [34] @ str ''High'' @ [34, 10]
     @ str ''  }'' @ [10]
     @ str '']'' @ [10]
     @ [10]
     @ str ''N'' @ [7871] @ str ''u kh'' @ [244] @ str ''ng c'' @ [243] @ str '' th'' @ [244] @ str ''ng tin cho tr'' @ [432, 7901] @ str ''ng n'' @ [224] @ str ''o, v'' @ [7851] @ str ''n ph'' @ [7843] @ str ''i tr'' @ [7843] @ str '' v'' @ [7873] @ str '' tr'' @ [432, 7901] @ str ''ng '' @ [273, 243] @ str '' v'' @ [7899] @ str ''i gi'' @ [225] @ str '' tr'' @ [7883] @ str '' h'' @ [7907] @ str ''p l'' @ [7879] @ str '' (v'' @ [237] @ str '' d'' @ [7909] @ str '': 0 cho '' @ [273] @ str ''i'' @ [7875] @ str ''m s'' @ [7889] @ str '', chu'' @ [7895] @ str ''i r'' @ [7895] @ str ''ng cho text).'' @ [10]
     @ [10]
     @ str ''IMPORTANT: T'' @ [7845] @ str ''t c'' @ [7843] @ str '' ph'' @ [7843] @ str ''n h'' @ [7891] @ str ''i (bao g'' @ [7891] @ str ''m nh'' @ [7853] @ str ''n x'' @ [233] @ str ''t, '' @ [273] @ str ''i'' @ [7875] @ str ''m s'' @ [7889] @ str '', g'' @ [7907] @ str ''i '' @ [253] @ str '', b'' @ [7843] @ str ''n s'' @ [7917] @ str ''a l'' @ [7895] @ str ''i) PH'' @ [7842] @ str ''I '' @ [273, 432, 7907] @ str ''c vi'' @ [7871] @ str ''t ho'' @ [224] @ str ''n to'' @ [224] @ str ''n b'' @ [7857] @ str ''ng ''"

definition reviewPromptText6 :: gostring where
  "reviewPromptText6 =
     str ''.'' @ [10]
     @ [10]
     @ str ''Analyze the writing sample now:''"

definition formatReviewPrompt ::
    "gostring \<Rightarrow> gostring \<Rightarrow> gostring \<Rightarrow> gostring \<Rightarrow> int \<Rightarrow> gostring \<Rightarrow> gostring" where
  "formatReviewPrompt content userLevelDesc category requirement wordCount responseLanguagePrompt =
     reviewPromptText0 @ content @ reviewPromptText1 @ userLevelDesc @ reviewPromptText2
     @ category @ reviewPromptText3 @ requirement @ reviewPromptText4 @ Itoa wordCount
     @ reviewPromptText5 @ responseLanguagePrompt @ reviewPromptText6"

definition buildReviewPrompt ::
    "(rune \<Rightarrow> rune) \<Rightarrow> (rune \<Rightarrow> rune) \<Rightarrow> GenerateCommentRequest \<Rightarrow> gostring" where
  "buildReviewPrompt upper lower req =
     (let userLevelDesc =
            (if UserLevel req \<noteq> []
             then (case reviewEnglishLevels (ToUpper upper (UserLevel req)) of
                     Some level \<Rightarrow> level
                   | None \<Rightarrow> str ''intermediate'')
             else str ''intermediate'');
          category =
            (if Category req \<noteq> []
             then (case writingCategories (ToLower lower (Category req)) of
                     Some cat \<Rightarrow> cat
                   | None \<Rightarrow> str ''general writing'')
             else str ''general writing'');
          responseLanguagePrompt =
            (if Language req = str ''vi'' then (str ''Ti'' @ [7871] @ str ''ng Vi'' @ [7879] @ str ''t'') else str ''English'');
          wordCount = getTotalWords (Content req)
      in formatReviewPrompt (Content req) userLevelDesc category (Requirement req) wordCount
           responseLanguagePrompt)"

section \<open>The caches\<close>

text \<open>
  \<open>cacheItem\<close> and \<open>reviewCacheItem\<close> are the same pair of a stored value and the instant at
  which it expires. An instant (\<open>time.Time\<close>) is a number of nanoseconds; \<open>t.After(u)\<close> is
  \<open>u < t\<close> and \<open>t.Add(d)\<close> is \<open>t + d\<close>. Both handlers hold their cache in a package variable,
  a map from key to item; the two variables are the fields of \<open>caches\<close>.
\<close>

record 'v cacheItem =
  Data :: 'v
  ExpiresAt :: int

type_synonym 'v reviewCacheItem = "'v cacheItem"

record ('q, 'r) caches =
  cache :: "gostring \<rightharpoonup> 'q cacheItem"
  reviewCache :: "gostring \<rightharpoonup> 'r reviewCacheItem"

text \<open>
  The lookup both handlers run before generating:
  \<open>if item, found := cache[cacheKey]; found && item.ExpiresAt.After(now)\<close>.
  A hit hands out \<open>item.Data\<close>; \<open>None\<close> is a miss.
\<close>

definition cacheLookup :: "(gostring \<rightharpoonup> 'v cacheItem) \<Rightarrow> gostring \<Rightarrow> int \<Rightarrow> 'v option" where
  "cacheLookup c cacheKey now =
     (case c cacheKey of
        None \<Rightarrow> None
      | Some item \<Rightarrow> if now < ExpiresAt item then Some (Data item) else None)"

text \<open>
  The store both handlers run after a successful generation:
  \<open>cache[cacheKey] = cacheItem{Data: v, ExpiresAt: now.Add(ttl)}\<close>, with a time to live of
  ten minutes in \<open>GenerateAssignment\<close> and of \<open>CACHE_DURATION\<close> in \<open>GenerateReview\<close>.
\<close>

definition cacheStore ::
    "(gostring \<rightharpoonup> 'v cacheItem) \<Rightarrow> gostring \<Rightarrow> 'v \<Rightarrow> int \<Rightarrow> int \<Rightarrow> (gostring \<rightharpoonup> 'v cacheItem)" where
  "cacheStore c cacheKey v now ttl = c(cacheKey \<mapsto> \<lparr>Data = v, ExpiresAt = now + ttl\<rparr>)"

text \<open>\<open>ClearReviewCache\<close> replaces the review cache by a fresh, empty map.\<close>

definition ClearReviewCache :: "('q, 'r) caches \<Rightarrow> ('q, 'r) caches" where
  "ClearReviewCache s = s\<lparr>reviewCache := Map.empty\<rparr>"

section \<open>The assignment handler\<close>

record GenerateQuizzesRequest =
  Topic :: gostring
  AssignmentTypes :: "gostring list"
  EnglishLevel :: gostring
  TotalQuestions :: int

text \<open>
  \<open>GeminiQuiz\<close> is one decoded item of the upstream answer; \<open>Quiz\<close> is the item handed to
  the client, with its identifier. The two structs share their field names, so the fields
  of \<open>GeminiQuiz\<close> are written with the qualifier \<open>GeminiQuiz.\<close> below.
\<close>

record GeminiQuiz =
  Type :: gostring
  Question :: gostring
  Answer :: gostring
  Options :: "gostring list"
  CorrectIndex :: int
  Explanation :: gostring

record Quiz =
  ID :: int
  Type :: gostring
  Question :: gostring
  Answer :: gostring
  Options :: "gostring list"
  CorrectIndex :: int
  Explanation :: gostring

record QuizResponse =
  Topic :: gostring
  Level :: gostring
  Total :: int
  Generated :: int
  Quizzes :: "Quiz list"

definition difficultyMapping :: "gostring \<rightharpoonup> gostring" where
  "difficultyMapping = map_of
     [(str ''A1 - Beginner'', str ''very basic vocabulary and simple grammar structures''),
      (str ''A2 - Elementary'', str ''basic vocabulary with simple past and present tenses''),
      (str ''B1 - Intermediate'', str ''intermediate vocabulary with complex sentence structures''),
      (str ''B2 - Upper Intermediate'', str ''advanced vocabulary with sophisticated grammar''),
      (str ''C1 - Advanced'', str ''complex vocabulary with nuanced language usage''),
      (str ''C2 - Proficient'', str ''expert-level vocabulary with native-like complexity'')]"

definition errTopicEmpty :: gostring where
  "errTopicEmpty =
     str ''t'' @ [234] @ str ''n ch'' @ [7911] @ str '' '' @ [273, 7873] @ str '' kh'' @ [244] @ str ''ng '' @ [273, 432, 7907] @ str ''c '' @ [273, 7875] @ str '' tr'' @ [7889] @ str ''ng''"

definition errTopicTooLong :: gostring where
  "errTopicTooLong =
     str ''ch'' @ [7911] @ str '' '' @ [273, 7873] @ str '' kh'' @ [244] @ str ''ng '' @ [273, 432, 7907] @ str ''c ch'' @ [7913] @ str ''a nhi'' @ [7873] @ str ''u h'' @ [417] @ str ''n 10 t'' @ [7915]"

definition errTotalRange :: gostring where
  "errTotalRange =
     str ''s'' @ [7889] @ str '' l'' @ [432, 7907] @ str ''ng c'' @ [226] @ str ''u h'' @ [7887] @ str ''i ph'' @ [7843] @ str ''i n'' @ [7857] @ str ''m trong kho'' @ [7843] @ str ''ng 1 '' @ [273, 7871] @ str ''n 50''"

definition errFewerThanTypes :: gostring where
  "errFewerThanTypes =
     str ''s'' @ [7889] @ str '' l'' @ [432, 7907] @ str ''ng c'' @ [226] @ str ''u h'' @ [7887] @ str ''i kh'' @ [244] @ str ''ng '' @ [273, 432, 7907] @ str ''c nh'' @ [7887] @ str '' h'' @ [417] @ str ''n s'' @ [7889] @ str '' d'' @ [7841] @ str ''ng c'' @ [226] @ str ''u h'' @ [7887] @ str ''i m'' @ [224] @ str '' b'' @ [7841] @ str ''n ch'' @ [7885] @ str ''n''"

definition errNoType :: gostring where
  "errNoType =
     str ''ph'' @ [7843] @ str ''i ch'' @ [7885] @ str ''n '' @ [237] @ str ''t nh'' @ [7845] @ str ''t m'' @ [7897] @ str ''t lo'' @ [7841] @ str ''i c'' @ [226] @ str ''u h'' @ [7887] @ str ''i''"

definition validateRequest :: "GenerateQuizzesRequest \<Rightarrow> error option" where
  "validateRequest request =
     (let topic = TrimSpace (GenerateQuizzesRequest.Topic request) in
      if topic = [] then Some (Error errTopicEmpty)
      else if int (length (Fields topic)) > 10 then Some (Error errTopicTooLong)
      else if TotalQuestions request < 1 \<or> TotalQuestions request > 50
        then Some (Error errTotalRange)
      else if int (length (AssignmentTypes request)) > TotalQuestions request
        then Some (Error errFewerThanTypes)
      else if length (AssignmentTypes request) = 0 then Some (Error errNoType)
      else None)"

text \<open>
  Reading a Go map at a key it does not hold gives the zero value; \<open>distribution[t]++\<close>
  reads and writes back.
\<close>

definition mapIndex :: "(gostring \<rightharpoonup> int) \<Rightarrow> gostring \<Rightarrow> int" where
  "mapIndex m k = (case m k of None \<Rightarrow> 0 | Some v \<Rightarrow> v)"

text \<open>
  The loop of \<open>distributeQuestionTypes\<close> over \<open>types\<close>, from index \<open>i\<close> on.
\<close>

fun distributeLoop ::
    "int \<Rightarrow> int \<Rightarrow> nat \<Rightarrow> gostring list \<Rightarrow> (gostring \<rightharpoonup> int) \<Rightarrow> (gostring \<rightharpoonup> int)" where
  "distributeLoop baseCount remainder i [] distribution = distribution"
| "distributeLoop baseCount remainder i (questionType # rest) distribution =
     (let d1 = distribution(questionType \<mapsto> baseCount);
          d2 = (if int i < remainder
                then d1(questionType \<mapsto> mapIndex d1 questionType + 1)
                else d1)
      in distributeLoop baseCount remainder (Suc i) rest d2)"

text \<open>
  Go's \<open>/\<close> and \<open>%\<close> on integers truncate towards zero (\<open>sdiv\<close>, \<open>smod\<close>) and panic on a zero
  divisor, which is what an empty list of types gives.
\<close>

definition distributeQuestionTypes :: "gostring list \<Rightarrow> int \<Rightarrow> error + (gostring \<rightharpoonup> int)" where
  "distributeQuestionTypes types tot =
     (if length types = 0 then Inl PanicDivideByZero
      else
        let baseCount = tot sdiv int (length types);
            remainder = tot smod int (length types)
        in Inr (distributeLoop baseCount remainder 0 types Map.empty))"

text \<open>The sum of the counts a distribution holds, over its keys.\<close>

definition distributionTotal :: "(gostring \<rightharpoonup> int) \<Rightarrow> int" where
  "distributionTotal m = (\<Sum>k\<in>dom m. mapIndex m k)"

text \<open>
  \<open>buildGeminiPrompt\<close> fills a fixed template with the request's fields, the difficulty
  that belongs to the level and the distribution of the types, listed in the iteration
  order of the map, which Go leaves open. The upstream service is a black box, so the model
  keeps what is substituted (the difficulty and the distribution) and not the text; it
  keeps the panic of \<open>distributeQuestionTypes\<close>.
\<close>

definition buildGeminiPrompt ::
    "GenerateQuizzesRequest \<Rightarrow> error + (gostring \<times> (gostring \<rightharpoonup> int))" where
  "buildGeminiPrompt req =
     (let difficulty =
            (case difficultyMapping (EnglishLevel req) of
               Some d \<Rightarrow> d
             | None \<Rightarrow> str ''intermediate level'')
      in case distributeQuestionTypes (AssignmentTypes req) (TotalQuestions req) of
           Inl p \<Rightarrow> Inl p
         | Inr typeDistribution \<Rightarrow> Inr (difficulty, typeDistribution))"

fun contains :: "gostring list \<Rightarrow> gostring \<Rightarrow> bool" where
  "contains [] item = False"
| "contains (s # slice) item = (if s = item then True else contains slice item)"

definition isValidQuiz :: "Quiz \<Rightarrow> bool" where
  "isValidQuiz quiz =
     (if Question quiz = [] then False
      else if Type quiz = str ''Multiple Choice''
        then int (length (Options quiz)) \<ge> 2 \<and> CorrectIndex quiz \<ge> 0
             \<and> CorrectIndex quiz < int (length (Options quiz))
      else if Type quiz = str ''Fill in the Blank'' then Answer quiz \<noteq> []
      else if Type quiz = str ''Short Answer'' then Answer quiz \<noteq> []
      else if Type quiz = str ''Essay'' then True
      else False)"

text \<open>
  The loop of \<open>parseGeminiResponse\<close> over the decoded items: each becomes a \<open>Quiz\<close> with
  trimmed texts and the zero identifier, and is kept only if its type was requested and it
  is valid.
\<close>

fun convertQuizzes :: "gostring list \<Rightarrow> GeminiQuiz list \<Rightarrow> Quiz list" where
  "convertQuizzes requestedTypes [] = []"
| "convertQuizzes requestedTypes (gQuiz # rest) =
     (let quiz = \<lparr>ID = 0,
                  Type = GeminiQuiz.Type gQuiz,
                  Question = TrimSpace (GeminiQuiz.Question gQuiz),
                  Answer = TrimSpace (GeminiQuiz.Answer gQuiz),
                  Options = GeminiQuiz.Options gQuiz,
                  CorrectIndex = GeminiQuiz.CorrectIndex gQuiz,
                  Explanation = TrimSpace (GeminiQuiz.Explanation gQuiz)\<rparr>
      in if \<not> contains requestedTypes (Type quiz) then convertQuizzes requestedTypes rest
         else if \<not> isValidQuiz quiz then convertQuizzes requestedTypes rest
         else quiz # convertQuizzes requestedTypes rest)"

text \<open>
  \<open>json.Unmarshal\<close> into \<open>GeminiQuizData\<close> belongs to the Go standard library: it is the
  parameter \<open>unmarshal\<close>, which gives the message of the decoding error or the decoded
  \<open>Quizzes\<close> field.
\<close>

definition parseGeminiResponse ::
    "(gostring \<Rightarrow> gostring + GeminiQuiz list) \<Rightarrow> gostring \<Rightarrow> gostring list \<Rightarrow> error + Quiz list" where
  "parseGeminiResponse unmarshal response requestedTypes =
     (let r1 = TrimSpace response;
          r2 = TrimPrefix r1 (str ''```json'');
          r3 = TrimSuffix r2 (str ''```'');
          r4 = TrimSpace r3
      in case unmarshal r4 of
           Inl err \<Rightarrow> Inl (Error (str ''failed to parse JSON: '' @ err))
         | Inr geminiData \<Rightarrow> Inr (convertQuizzes requestedTypes geminiData))"

text \<open>
  \<open>callGeminiAPI\<close> is the upstream call: its outcome, the message of an error or the text
  of the answer, is an argument of the function that makes the call. \<open>generateQuizzesWithGemini\<close>
  makes at most two calls, with the outcomes \<open>first\<close> and \<open>second\<close>.
\<close>

text \<open>
  A Go \<open>int\<close> has 64 bits; \<open>wrapInt64\<close> is the value an arithmetic result wraps to. It is
  written where a result can leave the range: the subtraction in
  \<open>generateAdditionalQuizzes\<close>.
\<close>

definition wrapInt64 :: "int \<Rightarrow> int" where
  "wrapInt64 x = (x + 9223372036854775808) mod 18446744073709551616 - 9223372036854775808"

definition generateAdditionalQuizzes ::
    "(gostring \<Rightarrow> gostring + GeminiQuiz list) \<Rightarrow> (gostring + gostring) \<Rightarrow>
     GenerateQuizzesRequest \<Rightarrow> int \<Rightarrow> error + Quiz list" where
  "generateAdditionalQuizzes unmarshal second req currentCount =
     (let needed = wrapInt64 (TotalQuestions req - currentCount) in
      if needed \<le> 0 then Inr []
      else case second of
             Inl err \<Rightarrow> Inl (Error err)
           | Inr response \<Rightarrow> parseGeminiResponse unmarshal response (AssignmentTypes req))"

text \<open>The loop \<open>for i := range quizzes { quizzes[i].ID = i + 1 }\<close>, from index \<open>i\<close> on.\<close>

fun assignIDs :: "nat \<Rightarrow> Quiz list \<Rightarrow> Quiz list" where
  "assignIDs i [] = []"
| "assignIDs i (q # quizzes) = q\<lparr>ID := int i + 1\<rparr> # assignIDs (Suc i) quizzes"

definition generateQuizzesWithGemini ::
    "(gostring \<Rightarrow> gostring + GeminiQuiz list) \<Rightarrow> (gostring + gostring) \<Rightarrow> (gostring + gostring) \<Rightarrow>
     GenerateQuizzesRequest \<Rightarrow> error + QuizResponse" where
  "generateQuizzesWithGemini unmarshal first second req =
     (case buildGeminiPrompt req of
        Inl p \<Rightarrow> Inl p
      | Inr prompt \<Rightarrow>
     (case first of
        Inl err \<Rightarrow> Inl (Error (str ''gemini API call failed: '' @ err))
      | Inr geminiResp \<Rightarrow>
     (case parseGeminiResponse unmarshal geminiResp (AssignmentTypes req) of
        Inl PanicDivideByZero \<Rightarrow> Inl PanicDivideByZero
      | Inl PanicSliceBounds \<Rightarrow> Inl PanicSliceBounds
      | Inl (Error err) \<Rightarrow> Inl (Error (str ''failed to parse gemini response: '' @ err))
      | Inr parsed \<Rightarrow>
          let quizzes1 =
                (if int (length parsed) < TotalQuestions req
                 then (case generateAdditionalQuizzes unmarshal second req (int (length parsed)) of
                         Inr additionalQuizzes \<Rightarrow> parsed @ additionalQuizzes
                       | Inl err \<Rightarrow> parsed)
                 else parsed)
          in if int (length quizzes1) > TotalQuestions req \<and> TotalQuestions req < 0
             then Inl PanicSliceBounds
             else
               let quizzes2 =
                     (if int (length quizzes1) > TotalQuestions req
                      then take (nat (TotalQuestions req)) quizzes1
                      else quizzes1);
                   quizzes3 = assignIDs 0 quizzes2
               in Inr \<lparr>Topic = GenerateQuizzesRequest.Topic req,
                       Level = EnglishLevel req,
                       Total = TotalQuestions req,
                       Generated = int (length quizzes3),
                       Quizzes = quizzes3\<rparr>)))"

section \<open>The parser of the review answer\<close>

record ReviewSuggestion =
  Category :: gostring
  Issue :: gostring
  Suggestion :: gostring
  Example :: gostring
  Priority :: gostring

text \<open>
  \<open>fallback\<close> is the anonymous struct of the second decoding attempt, whose suggestions are
  plain strings; \<open>GeminiReviewData\<close> is the shape the parser returns. The two share their
  field names, so the fields of \<open>fallback\<close> carry the qualifier \<open>fallback.\<close> below. The
  five scores (\<open>ReviewCriteria\<close>, floating-point numbers) are only carried from the decoder to
  the result; their type is the parameter \<open>'sc\<close>.
\<close>

record 'sc fallback =
  EstimatedLevel :: gostring
  Scores :: 'sc
  OverallFeedback :: gostring
  StrengthPoints :: "gostring list"
  ImprovementAreas :: "gostring list"
  Suggestions :: "gostring list"
  CorrectedVersion :: gostring

record 'sc GeminiReviewData =
  EstimatedLevel :: gostring
  Scores :: 'sc
  OverallFeedback :: gostring
  StrengthPoints :: "gostring list"
  ImprovementAreas :: "gostring list"
  Suggestions :: "ReviewSuggestion list"
  CorrectedVersion :: gostring

text \<open>The entry the parser puts in when the strict decoding gave no suggestion.\<close>

definition defaultSuggestion :: ReviewSuggestion where
  "defaultSuggestion =
     \<lparr>ReviewSuggestion.Category = str ''General'',
      Issue = str ''Continue practicing'',
      Suggestion = str ''Keep writing regularly to improve your skills'',
      Example = str ''Practice different types of writing'',
      Priority = str ''Medium''\<rparr>"

text \<open>
  The two calls of \<open>json.Unmarshal\<close> belong to the Go standard library: they are the
  parameters \<open>unmarshalReview\<close> (into \<open>GeminiReviewData\<close>) and \<open>unmarshalFallback\<close> (into the
  fallback struct), each giving the message of the decoding error or the decoded value.
  The fallback branch returns from inside the error branch of the first decoding, before
  the checks that follow it.
\<close>

definition parseGeminiReviewResponse ::
    "(gostring \<Rightarrow> gostring + 'sc GeminiReviewData) \<Rightarrow> (gostring \<Rightarrow> gostring + 'sc fallback) \<Rightarrow>
     gostring \<Rightarrow> error + 'sc GeminiReviewData" where
  "parseGeminiReviewResponse unmarshalReview unmarshalFallback response =
     (let r1 = TrimSpace response;
          r2 = TrimPrefix r1 (str ''```json'');
          r3 = TrimSuffix r2 (str ''```'');
          r4 = TrimSpace r3
      in case unmarshalReview r4 of
           Inl err \<Rightarrow>
             (case unmarshalFallback r4 of
                Inr fb \<Rightarrow>
                  let sugs = map (\<lambda>s. \<lparr>ReviewSuggestion.Category = [], Issue = [],
                                        Suggestion = s, Example = [], Priority = []\<rparr>)
                                 (fallback.Suggestions fb)
                  in Inr \<lparr>EstimatedLevel = fallback.EstimatedLevel fb,
                          Scores = fallback.Scores fb,
                          OverallFeedback = fallback.OverallFeedback fb,
                          StrengthPoints = fallback.StrengthPoints fb,
                          ImprovementAreas = fallback.ImprovementAreas fb,
                          Suggestions = sugs,
                          CorrectedVersion = fallback.CorrectedVersion fb\<rparr>
              | Inl err2 \<Rightarrow> Inl (Error (str ''failed to parse review JSON: '' @ err)))
         | Inr reviewData \<Rightarrow>
             let rd1 = (if EstimatedLevel reviewData = []
                        then reviewData\<lparr>EstimatedLevel := str ''B1''\<rparr>
                        else reviewData)
             in if OverallFeedback rd1 = []
                then Inl (Error (str ''missing overall feedback in API response''))
                else Inr (if length (Suggestions rd1) = 0
                          then rd1\<lparr>Suggestions := [defaultSuggestion]\<rparr>
                          else rd1))"

section \<open>The two handlers around their caches\<close>

text \<open>
  What a handler writes: an error text with its status (\<open>http.Error\<close>), a JSON body with its
  status, or the fixed apology of the review handler with status 503. A handler that panics
  writes nothing; the panic is the fourth alternative.
\<close>

datatype 'v httpResponse =
    HttpError int gostring
  | HttpJSON int 'v
  | HttpUnavailable
  | HandlerPanic error

fun errorText :: "error \<Rightarrow> gostring" where
  "errorText (Error msg) = msg"
| "errorText PanicDivideByZero = str ''runtime error: integer divide by zero''"
| "errorText PanicSliceBounds = str ''runtime error: slice bounds out of range''"

fun Join :: "gostring list \<Rightarrow> gostring \<Rightarrow> gostring" where
  "Join [] sep = []"
| "Join [a] sep = a"
| "Join (a # b # rest) sep = a @ sep @ Join (b # rest) sep"

definition generateCacheKey :: "(rune \<Rightarrow> rune) \<Rightarrow> GenerateQuizzesRequest \<Rightarrow> gostring" where
  "generateCacheKey lower req =
     ToLower lower (GenerateQuizzesRequest.Topic req) @ str ''-''
     @ Join (AssignmentTypes req) (str ''-'') @ str ''-''
     @ EnglishLevel req @ str ''-'' @ Itoa (TotalQuestions req)"

text \<open>
  \<open>GenerateAssignment\<close>, as a function of the decoded body (\<open>None\<close> when the body is not a
  JSON request), the instant \<open>now\<close>, what the upstream calls and the decoder give, and the
  cache; it returns what it writes and the cache it leaves. Ten minutes are
  \<open>600000000000\<close> nanoseconds.
\<close>

definition GenerateAssignment ::
    "(rune \<Rightarrow> rune) \<Rightarrow> (gostring \<Rightarrow> gostring + GeminiQuiz list) \<Rightarrow> (gostring + gostring) \<Rightarrow>
     (gostring + gostring) \<Rightarrow> GenerateQuizzesRequest option \<Rightarrow> int \<Rightarrow>
     (gostring \<rightharpoonup> QuizResponse cacheItem) \<Rightarrow>
     QuizResponse httpResponse \<times> (gostring \<rightharpoonup> QuizResponse cacheItem)" where
  "GenerateAssignment lower unmarshal first second body now c =
     (case body of
        None \<Rightarrow> (HttpError 400 (str ''Invalid JSON request''), c)
      | Some request \<Rightarrow>
     (case validateRequest request of
        Some err \<Rightarrow> (HttpError 400 (errorText err), c)
      | None \<Rightarrow>
          let cacheKey = generateCacheKey lower request in
          (case cacheLookup c cacheKey now of
             Some itemData \<Rightarrow> (HttpJSON 200 itemData, c)
           | None \<Rightarrow>
          (case generateQuizzesWithGemini unmarshal first second request of
             Inl (Error err) \<Rightarrow> (HttpError 500 (str ''Failed to generate quizzes''), c)
           | Inl PanicDivideByZero \<Rightarrow> (HandlerPanic PanicDivideByZero, c)
           | Inl PanicSliceBounds \<Rightarrow> (HandlerPanic PanicSliceBounds, c)
           | Inr quizResponse \<Rightarrow>
               (HttpJSON 201 quizResponse,
                cacheStore c cacheKey quizResponse now (10 * 60000000000))))))"

text \<open>
  The key of the review cache: the length in bytes of the lower-cased content joined with
  the other fields, in hexadecimal, a dash, and the word count. A rune takes one to four
  bytes in UTF-8; a number that is no code point is written as U+FFFD, in three bytes.
\<close>

definition utf8Len :: "rune \<Rightarrow> nat" where
  "utf8Len r =
     (if r < 128 then 1 else if r < 2048 then 2 else if r < 65536 then 3
      else if r \<le> 1114111 then 4 else 3)"

definition len :: "gostring \<Rightarrow> nat" where
  "len s = sum_list (map utf8Len s)"

fun natHex :: "nat \<Rightarrow> gostring" where
  "natHex n =
     (let d = n mod 16; c = (if d < 10 then 48 + d else 87 + d)
      in if n < 16 then [c] else natHex (n div 16) @ [c])"

declare natHex.simps [simp del]

definition generateReviewCacheKey :: "(rune \<Rightarrow> rune) \<Rightarrow> GenerateCommentRequest \<Rightarrow> gostring" where
  "generateReviewCacheKey lower req =
     (let key = ToLower lower (Content req) @ str ''-'' @ UserLevel req @ str ''-''
                @ Requirement req @ str ''-'' @ GenerateCommentRequest.Category req
      in natHex (len key) @ str ''-'' @ Itoa (getTotalWords (Content req)))"

text \<open>
  \<open>GenerateReview\<close>, in the same way; \<open>generate\<close> stands for \<open>generateReviewWithGemini\<close>, whose
  result depends on the upstream service and the clock. On a hit the handler logs
  \<open>cacheKey[:10]\<close> before it writes the cached value: slicing a string beyond its length
  panics.
\<close>

definition GenerateReview ::
    "(rune \<Rightarrow> rune) \<Rightarrow> (rune \<Rightarrow> rune) \<Rightarrow> (GenerateCommentRequest \<Rightarrow> error + 'r) \<Rightarrow>
     GenerateCommentRequest option \<Rightarrow> int \<Rightarrow> (gostring \<rightharpoonup> 'r reviewCacheItem) \<Rightarrow>
     'r httpResponse \<times> (gostring \<rightharpoonup> 'r reviewCacheItem)" where
  "GenerateReview upper lower generate body now c =
     (case body of
        None \<Rightarrow> (HttpError 400 (str ''Invalid JSON request''), c)
      | Some request \<Rightarrow>
     (case validateReviewRequest upper request of
        Some err \<Rightarrow> (HttpError 400 (errorText err), c)
      | None \<Rightarrow>
          let cacheKey = generateReviewCacheKey lower request in
          (case cacheLookup c cacheKey now of
             Some itemData \<Rightarrow>
               if len cacheKey < 10 then (HandlerPanic PanicSliceBounds, c)
               else (HttpJSON 200 itemData, c)
           | None \<Rightarrow>
          (case generate request of
             Inl err \<Rightarrow> (HttpUnavailable, c)
           | Inr reviewResponse \<Rightarrow>
               (HttpJSON 200 reviewResponse,
                cacheStore c cacheKey reviewResponse now CACHE_DURATION)))))"

section \<open>Properties of the word count\<close>

lemma dropWhile_all: "(\<forall>x\<in>set (dropWhile P s). P x) \<longleftrightarrow> (\<forall>x\<in>set s. P x)"
  by (induction s) auto

lemma TrimSpace_empty_iff: "TrimSpace s = [] \<longleftrightarrow> (\<forall>r\<in>set s. isSpace r)"
proof -
  have "TrimSpace s = [] \<longleftrightarrow> (\<forall>x\<in>set (rev (dropWhile isSpace s)). isSpace x)"
    by (simp add: TrimSpace_def dropWhile_eq_Nil_conv)
  also have "\<dots> \<longleftrightarrow> (\<forall>x\<in>set s. isSpace x)"
    using dropWhile_all [of isSpace s] by simp
  finally show ?thesis .
qed

lemma loop_all_space:
  "\<forall>r\<in>set s. f r \<Longrightarrow> FieldsFunc_loop f cur s = (if cur = [] then [] else [cur])"
  by (induction s arbitrary: cur) auto

lemma loop_skip_prefix:
  "\<forall>r\<in>set a. f r \<Longrightarrow> FieldsFunc_loop f [] (a @ s) = FieldsFunc_loop f [] s"
  by (induction a) auto

lemma loop_skip_suffix:
  "\<forall>r\<in>set b. f r \<Longrightarrow> FieldsFunc_loop f cur (s @ b) = FieldsFunc_loop f cur s"
  by (induction s arbitrary: cur) (auto simp: loop_all_space)

lemma Fields_all_space: "\<forall>r\<in>set s. isSpace r \<Longrightarrow> Fields s = []"
  by (simp add: Fields_def FieldsFunc_def loop_all_space)

lemma Fields_pad:
  "\<forall>r\<in>set a. isSpace r \<Longrightarrow> \<forall>r\<in>set b. isSpace r \<Longrightarrow> Fields (a @ s @ b) = Fields s"
  by (simp add: Fields_def FieldsFunc_def loop_skip_prefix loop_skip_suffix)

lemma TrimSpace_decomp:
  "\<exists>a b. s = a @ TrimSpace s @ b \<and> (\<forall>r\<in>set a. isSpace r) \<and> (\<forall>r\<in>set b. isSpace r)"
proof -
  define d where "d = dropWhile isSpace s"
  define a where "a = takeWhile isSpace s"
  define b where "b = rev (takeWhile isSpace (rev d))"
  have "d = rev (takeWhile isSpace (rev d) @ dropWhile isSpace (rev d))"
    by simp
  also have "\<dots> = rev (dropWhile isSpace (rev d)) @ b"
    unfolding b_def by (rule rev_append)
  finally have dd: "d = TrimSpace s @ b"
    by (simp add: TrimSpace_def d_def)
  have "s = a @ d" by (simp add: a_def d_def)
  then have "s = a @ TrimSpace s @ b" using dd by simp
  moreover have "\<forall>r\<in>set a. isSpace r"
    unfolding a_def by (auto dest: set_takeWhileD)
  moreover have "\<forall>r\<in>set b. isSpace r"
    unfolding b_def by (auto dest: set_takeWhileD)
  ultimately show ?thesis by blast
qed

lemma Fields_TrimSpace: "Fields (TrimSpace s) = Fields s"
proof -
  from TrimSpace_decomp [of s] obtain a b
    where eq: "s = a @ TrimSpace s @ b"
      and a: "\<forall>r\<in>set a. isSpace r" and b: "\<forall>r\<in>set b. isSpace r"
    by blast
  have "Fields s = Fields (a @ TrimSpace s @ b)"
    using eq by (rule arg_cong)
  also have "\<dots> = Fields (TrimSpace s)"
    using a b by (rule Fields_pad)
  finally show ?thesis by (rule sym)
qed

lemma loop_snoc_length:
  "length (FieldsFunc_loop f cur (s @ [c])) =
     length (FieldsFunc_loop f cur s)
     + (if \<not> f c \<and> (if s = [] then cur = [] else f (last s)) then 1 else 0)"
  by (induction s arbitrary: cur) auto

lemma tokenStart_snoc_old: "i < length s \<Longrightarrow> tokenStart (s @ [c]) i \<longleftrightarrow> tokenStart s i"
  by (auto simp: tokenStart_def nth_append)

lemma tokenStart_snoc_new:
  "tokenStart (s @ [c]) (length s) \<longleftrightarrow> \<not> isSpace c \<and> (s = [] \<or> isSpace (last s))"
  by (cases "s = []") (auto simp: tokenStart_def nth_append last_conv_nth)

lemma tokenStart_bound: "tokenStart s i \<Longrightarrow> i < length s"
  by (simp add: tokenStart_def)

lemma tokenStart_snoc:
  "{i. tokenStart (s @ [c]) i} =
     {i. tokenStart s i} \<union> (if \<not> isSpace c \<and> (s = [] \<or> isSpace (last s)) then {length s} else {})"
proof -
  have "tokenStart (s @ [c]) i \<longleftrightarrow>
          tokenStart s i \<or> (i = length s \<and> \<not> isSpace c \<and> (s = [] \<or> isSpace (last s)))" for i
  proof (cases "i < length s")
    case True
    then show ?thesis using tokenStart_snoc_old [of i s c] by auto
  next
    case False
    show ?thesis
    proof (cases "i = length s")
      case True
      then show ?thesis using tokenStart_snoc_new [of s c] tokenStart_bound [of s i] by auto
    next
      case False
      with \<open>\<not> i < length s\<close> have "\<not> i < length (s @ [c])" by simp
      then have "\<not> tokenStart (s @ [c]) i" using tokenStart_bound by blast
      moreover have "\<not> tokenStart s i" using \<open>\<not> i < length s\<close> tokenStart_bound by blast
      ultimately show ?thesis using False by simp
    qed
  qed
  then show ?thesis by auto
qed

lemma finite_tokenStart: "finite {i. tokenStart s i}"
  by (rule finite_subset [of _ "{..<length s}"]) (auto simp: tokenStart_def)

lemma card_tokenStart_loop:
  "length (FieldsFunc_loop isSpace [] s) = card {i. tokenStart s i}"
proof (induction s rule: rev_induct)
  case Nil
  then show ?case by (simp add: tokenStart_def)
next
  case (snoc c s)
  let ?S = "{i. tokenStart s i}"
  have notin: "length s \<notin> ?S" using tokenStart_bound [of s "length s"] by auto
  have fin: "finite ?S" by (rule finite_tokenStart)
  show ?case
  proof (cases "\<not> isSpace c \<and> (s = [] \<or> isSpace (last s))")
    case True
    then have "{i. tokenStart (s @ [c]) i} = insert (length s) ?S"
      using tokenStart_snoc [of s c] by simp
    then have "card {i. tokenStart (s @ [c]) i} = Suc (card ?S)"
      using notin fin by simp
    moreover have "length (FieldsFunc_loop isSpace [] (s @ [c])) =
        Suc (length (FieldsFunc_loop isSpace [] s))"
      using True by (auto simp: loop_snoc_length)
    ultimately show ?thesis using snoc by simp
  next
    case False
    have "(if \<not> isSpace c \<and> (s = [] \<or> isSpace (last s)) then {length s} else {}) = ({} :: nat set)"
      using False by (rule if_not_P)
    then have "{i. tokenStart (s @ [c]) i} = ?S"
      by (simp only: tokenStart_snoc Un_empty_right)
    moreover have "length (FieldsFunc_loop isSpace [] (s @ [c])) =
        length (FieldsFunc_loop isSpace [] s)"
      using False by (auto simp: loop_snoc_length)
    ultimately show ?thesis using snoc by simp
  qed
qed

lemma maximalToken_start: "maximalToken s i j \<Longrightarrow> tokenStart s i"
  by (auto simp: maximalToken_def tokenStart_def)

lemma maximalToken_unique: "maximalToken s i j \<Longrightarrow> maximalToken s i j' \<Longrightarrow> j = j'"
proof (rule ccontr)
  assume a: "maximalToken s i j" and b: "maximalToken s i j'" and ne: "j \<noteq> j'"
  have aux: False if t: "maximalToken s i x" and u: "maximalToken s i y" and lt: "x < y" for x y
  proof -
    from u lt have "x < length s" by (simp add: maximalToken_def)
    with t have "isSpace (s ! x)" by (auto simp: maximalToken_def)
    moreover from t u lt have "\<not> isSpace (s ! x)" by (auto simp: maximalToken_def)
    ultimately show False by simp
  qed
  from ne have "j < j' \<or> j' < j" by auto
  with a b aux show False by blast
qed

lemma tokenStart_end: 
  assumes "tokenStart s i"
  shows "\<exists>j. maximalToken s i j"
proof -
  let ?P = "\<lambda>j. i < j \<and> (j = length s \<or> isSpace (s ! j))"
  from assms have il: "i < length s" and ns: "\<not> isSpace (s ! i)"
    and st: "i = 0 \<or> isSpace (s ! (i - 1))" by (auto simp: tokenStart_def)
  have ex: "?P (length s)" using il by simp
  define j where "j = (LEAST j. ?P j)"
  have Pj: "?P j" unfolding j_def using ex by (rule LeastI)
  have jle: "j \<le> length s" unfolding j_def using ex by (rule Least_le)
  have "\<not> isSpace (s ! k)" if "i \<le> k" "k < j" for k
  proof (cases "k = i")
    case True
    then show ?thesis using ns by simp
  next
    case False
    with that have "i < k" by simp
    from \<open>k < j\<close> have "\<not> ?P k" unfolding j_def by (rule not_less_Least)
    with \<open>i < k\<close> show ?thesis by simp
  qed
  with Pj jle st have "maximalToken s i j" by (auto simp: maximalToken_def)
  then show ?thesis ..
qed

lemma card_maximalToken:
  "card {(i, j). maximalToken s i j} = card {i. tokenStart s i}"
proof -
  let ?T = "{(i, j). maximalToken s i j}"
  have "fst ` ?T = {i. tokenStart s i}"
    using maximalToken_start tokenStart_end by (auto simp: image_iff) 
  moreover have "inj_on fst ?T"
    by (auto simp: inj_on_def dest: maximalToken_unique)
  ultimately show ?thesis using card_image [of fst ?T] by simp
qed

lemma Fields_count: "length (Fields s) = card {(i, j). maximalToken s i j}"
  by (simp add: Fields_def FieldsFunc_def card_tokenStart_loop card_maximalToken)

lemma getTotalWords_eq_length: "getTotalWords s = int (length (Fields s))"
  by (simp add: getTotalWords_def TrimSpace_empty_iff Fields_all_space)

lemma getTotalWords_pad:
  assumes "\<forall>r\<in>set a. isSpace r" and "\<forall>r\<in>set b. isSpace r"
  shows "getTotalWords (a @ s @ b) = getTotalWords s"
  using assms by (simp add: getTotalWords_eq_length Fields_pad)

text \<open>
  Claim C4. The word count of the review handler (\<open>getTotalWords\<close>) and of the utility
  package (\<open>GetTotalWords\<close>) is the number of maximal whitespace-delimited tokens of the
  input: the number of index pairs \<open>(i, j)\<close> such that \<open>s[i..j)\<close> is a non-empty run of
  non-whitespace runes that can be extended neither to the left nor to the right.
  Whitespace added in front or behind does not change the count, trimming does not
  change it, and an empty or whitespace-only input counts 0 words.
\<close>

theorem getTotalWords_counts_tokens:
  "getTotalWords s = int (card {(i, j). maximalToken s i j})
   \<and> GetTotalWords s = int (card {(i, j). maximalToken s i j})
   \<and> ((\<forall>r\<in>set a. isSpace r) \<and> (\<forall>r\<in>set b. isSpace r)
        \<longrightarrow> getTotalWords (a @ s @ b) = getTotalWords s)
   \<and> getTotalWords (TrimSpace s) = getTotalWords s
   \<and> ((\<forall>r\<in>set w. isSpace r) \<longrightarrow> getTotalWords w = 0 \<and> GetTotalWords w = 0)"
proof -
  have "getTotalWords s = int (card {(i, j). maximalToken s i j})"
    by (simp only: getTotalWords_eq_length Fields_count)
  moreover have "GetTotalWords s = int (card {(i, j). maximalToken s i j})"
    by (simp only: GetTotalWords_def Fields_count)
  moreover have "(\<forall>r\<in>set a. isSpace r) \<and> (\<forall>r\<in>set b. isSpace r)
        \<longrightarrow> getTotalWords (a @ s @ b) = getTotalWords s"
    using getTotalWords_pad by blast
  moreover have "getTotalWords (TrimSpace s) = getTotalWords s"
    by (simp only: getTotalWords_eq_length Fields_TrimSpace)
  moreover have "(\<forall>r\<in>set w. isSpace r) \<longrightarrow> getTotalWords w = 0 \<and> GetTotalWords w = 0"
    by (simp add: getTotalWords_eq_length GetTotalWords_def Fields_all_space)
  ultimately show ?thesis by blast
qed

theorem getTotalWords_counts_tokens_witness:
  "isSpace 32 \<and> isSpace 9 \<and> isSpace 160 \<and> isSpace 10 \<and> isSpace 8195
   \<and> getTotalWords (str ''hello  big world'') = 3
   \<and> card {(i, j). maximalToken (str ''hello  big world'') i j} = 3
   \<and> getTotalWords ([32] @ str ''hello  big world'' @ [9, 160]) = 3
   \<and> getTotalWords (TrimSpace (str ''hello  big world'')) = 3
   \<and> getTotalWords [32, 10, 8195] = 0"
proof -
  have h1: "\<forall>r\<in>set [32]. isSpace r" by (simp add: isSpace_def)
  have h2: "\<forall>r\<in>set [9, 160]. isSpace r" by (simp add: isSpace_def)
  have h3: "\<forall>r\<in>set [32, 10, 8195]. isSpace r" by (simp add: isSpace_def)
  have ev: "getTotalWords (str ''hello  big world'') = 3"
    by (simp add: getTotalWords_def TrimSpace_def Fields_def FieldsFunc_def str_def isSpace_def)
  note t = getTotalWords_counts_tokens
    [of "str ''hello  big world''" "[32]" "[9, 160]" "[32, 10, 8195]"]
  from t ev have "card {(i, j). maximalToken (str ''hello  big world'') i j} = 3"
    by linarith
  moreover from t h1 h2 ev have "getTotalWords ([32] @ str ''hello  big world'' @ [9, 160]) = 3"
    by simp
  moreover from t ev have "getTotalWords (TrimSpace (str ''hello  big world'')) = 3"
    by simp
  moreover from t h3 have "getTotalWords [32, 10, 8195] = 0" by blast
  moreover have "isSpace 32 \<and> isSpace 9 \<and> isSpace 160 \<and> isSpace 10 \<and> isSpace 8195"
    by (simp add: isSpace_def)
  ultimately show ?thesis using ev by blast
qed

text \<open>
  Claim C9. The two word counts are extensionally equal: the utility function
  \<open>GetTotalWords\<close> and the review handler's \<open>getTotalWords\<close> return the same number on
  every input, because a string that trims to the empty string has no fields.
\<close>

theorem GetTotalWords_eq_getTotalWords: "GetTotalWords s = getTotalWords s"
  by (simp add: GetTotalWords_def getTotalWords_def TrimSpace_empty_iff Fields_all_space)

section \<open>Properties of the review validator and prompt\<close>

lemma Itoa_10: "Itoa 10 = str ''10''"
  by (simp add: Itoa_def natDigits.simps str_def)

lemma Itoa_1000: "Itoa 1000 = str ''1000''"
  by (simp add: Itoa_def natDigits.simps str_def)

lemma errTooShort_names_bound: "sublist (Itoa n) (errTooShort n)"
  unfolding errTooShort_def by (rule sublist_appendI)

lemma errTooLong_names_bound: "sublist (Itoa n) (errTooLong n)"
  unfolding errTooLong_def by (rule sublist_appendI)

lemma errEmptyContent_no_digit: "49 \<notin> set errEmptyContent"
  by (simp add: errEmptyContent_def str_def)

lemma errEmptyContent_names_no_10: "\<not> sublist (str ''10'') errEmptyContent"
proof
  assume "sublist (str ''10'') errEmptyContent"
  then have "set (str ''10'') \<subseteq> set errEmptyContent" by (rule set_mono_sublist)
  moreover have "49 \<in> set (str ''10'')" by (simp add: str_def)
  ultimately show False using errEmptyContent_no_digit by blast
qed

lemma getTotalWords_Nil: "getTotalWords [] = 0"
  by (simp add: getTotalWords_def TrimSpace_def)

lemma getTotalWords_pos_nonempty: "0 < getTotalWords s \<Longrightarrow> s \<noteq> []"
  using getTotalWords_Nil by auto

lemma validate_empty:
  "TrimSpace (Content request) = [] \<Longrightarrow>
     validateReviewRequest tbl request = Some (Error errEmptyContent)"
  by (simp add: validateReviewRequest_def)

lemma validate_short:
  "TrimSpace (Content request) \<noteq> [] \<Longrightarrow>
   getTotalWords (TrimSpace (Content request)) < MIN_TOTAL_WORDS \<Longrightarrow>
     validateReviewRequest tbl request = Some (Error (errTooShort MIN_TOTAL_WORDS))"
  by (simp add: validateReviewRequest_def Let_def)

lemma validate_long:
  "TrimSpace (Content request) \<noteq> [] \<Longrightarrow>
   getTotalWords (TrimSpace (Content request)) > MAX_TOTAL_WORDS \<Longrightarrow>
     validateReviewRequest tbl request = Some (Error (errTooLong MAX_TOTAL_WORDS))"
  by (simp add: validateReviewRequest_def Let_def MIN_TOTAL_WORDS_def MAX_TOTAL_WORDS_def)

lemma validate_empty_level:
  "UserLevel request = [] \<Longrightarrow>
   MIN_TOTAL_WORDS \<le> getTotalWords (TrimSpace (Content request)) \<Longrightarrow>
   getTotalWords (TrimSpace (Content request)) \<le> MAX_TOTAL_WORDS \<Longrightarrow>
     validateReviewRequest tbl request = None"
proof -
  assume e: "UserLevel request = []"
    and lo: "MIN_TOTAL_WORDS \<le> getTotalWords (TrimSpace (Content request))"
    and hi: "getTotalWords (TrimSpace (Content request)) \<le> MAX_TOTAL_WORDS"
  from lo have "0 < getTotalWords (TrimSpace (Content request))"
    by (simp add: MIN_TOTAL_WORDS_def)
  then have "TrimSpace (Content request) \<noteq> []" by (rule getTotalWords_pos_nonempty)
  with e lo hi show ?thesis
    by (simp add: validateReviewRequest_def Let_def)
qed

lemma loop_repeat_word:
  "FieldsFunc_loop isSpace [] (concat (replicate n [97, 32])) = replicate n [97]"
  by (induction n) (simp_all add: isSpace_def)

lemma getTotalWords_repeat_word: "getTotalWords (concat (replicate n [97, 32])) = int n"
  by (simp add: getTotalWords_eq_length Fields_def FieldsFunc_def loop_repeat_word)

text \<open>
  Claim C6 (as amended). A review request whose trimmed content is not empty and has fewer
  than \<open>MIN_TOTAL_WORDS = 10\<close> words is rejected with a message that contains \<open>10\<close>; one with
  more than \<open>MAX_TOTAL_WORDS = 1000\<close> words is rejected with a message that contains \<open>1000\<close>.
  A request whose trimmed content is empty is rejected too, with the message of the
  empty-content check, which comes first.
\<close>

theorem validateReviewRequest_word_bounds:
  "(TrimSpace (Content request) \<noteq> [] \<and> getTotalWords (TrimSpace (Content request)) < MIN_TOTAL_WORDS
      \<longrightarrow> validateReviewRequest tbl request = Some (Error (errTooShort MIN_TOTAL_WORDS))
          \<and> MIN_TOTAL_WORDS = 10 \<and> sublist (str ''10'') (errTooShort MIN_TOTAL_WORDS))
   \<and> (getTotalWords (TrimSpace (Content request)) > MAX_TOTAL_WORDS
      \<longrightarrow> validateReviewRequest tbl request = Some (Error (errTooLong MAX_TOTAL_WORDS))
          \<and> MAX_TOTAL_WORDS = 1000 \<and> sublist (str ''1000'') (errTooLong MAX_TOTAL_WORDS))
   \<and> (TrimSpace (Content request) = []
      \<longrightarrow> validateReviewRequest tbl request = Some (Error errEmptyContent))"
proof (intro conjI impI)
  assume a: "TrimSpace (Content request) \<noteq> [] \<and>
             getTotalWords (TrimSpace (Content request)) < MIN_TOTAL_WORDS"
  then show "validateReviewRequest tbl request = Some (Error (errTooShort MIN_TOTAL_WORDS))"
    by (simp add: validate_short)
  show "MIN_TOTAL_WORDS = 10" by (simp add: MIN_TOTAL_WORDS_def)
  show "sublist (str ''10'') (errTooShort MIN_TOTAL_WORDS)"
    using errTooShort_names_bound [of 10] by (simp add: MIN_TOTAL_WORDS_def Itoa_10)
next
  assume b: "getTotalWords (TrimSpace (Content request)) > MAX_TOTAL_WORDS"
  then have "0 < getTotalWords (TrimSpace (Content request))"
    by (simp add: MAX_TOTAL_WORDS_def)
  then have "TrimSpace (Content request) \<noteq> []" by (rule getTotalWords_pos_nonempty)
  with b show "validateReviewRequest tbl request = Some (Error (errTooLong MAX_TOTAL_WORDS))"
    by (simp add: validate_long)
  show "MAX_TOTAL_WORDS = 1000" by (simp add: MAX_TOTAL_WORDS_def)
  show "sublist (str ''1000'') (errTooLong MAX_TOTAL_WORDS)"
    using errTooLong_names_bound [of 1000] by (simp add: MAX_TOTAL_WORDS_def Itoa_1000)
next
  assume "TrimSpace (Content request) = []"
  then show "validateReviewRequest tbl request = Some (Error errEmptyContent)"
    by (rule validate_empty)
qed

theorem validateReviewRequest_word_bounds_witness:
  "TrimSpace (str ''one two three four five'') \<noteq> []
   \<and> getTotalWords (TrimSpace (str ''one two three four five'')) = 5
   \<and> validateReviewRequest (\<lambda>r. r)
        \<lparr>Content = str ''one two three four five'', UserLevel = [], Requirement = [],
         GenerateCommentRequest.Category = [], Language = []\<rparr> = Some (Error (errTooShort 10))
   \<and> sublist (str ''10'') (errTooShort 10)
   \<and> getTotalWords (TrimSpace (concat (replicate 1001 [97, 32]))) = 1001
   \<and> validateReviewRequest (\<lambda>r. r)
        \<lparr>Content = concat (replicate 1001 [97, 32]), UserLevel = [], Requirement = [],
         GenerateCommentRequest.Category = [], Language = []\<rparr> = Some (Error (errTooLong 1000))
   \<and> sublist (str ''1000'') (errTooLong 1000)
   \<and> validateReviewRequest (\<lambda>r. r)
        \<lparr>Content = [32, 10], UserLevel = [], Requirement = [],
         GenerateCommentRequest.Category = [], Language = []\<rparr> = Some (Error errEmptyContent)"
proof -
  let ?short = "\<lparr>Content = str ''one two three four five'', UserLevel = [], Requirement = [],
         GenerateCommentRequest.Category = [], Language = []\<rparr>"
  let ?long = "\<lparr>Content = concat (replicate 1001 [97, 32]), UserLevel = [], Requirement = [],
         GenerateCommentRequest.Category = [], Language = []\<rparr>"
  let ?blank = "\<lparr>Content = [32, 10], UserLevel = [], Requirement = [],
         GenerateCommentRequest.Category = [], Language = []\<rparr>"
  have s1: "TrimSpace (str ''one two three four five'') \<noteq> []"
    by (simp add: TrimSpace_def str_def isSpace_def)
  have s2: "getTotalWords (TrimSpace (str ''one two three four five'')) = 5"
    by (simp add: getTotalWords_def TrimSpace_def Fields_def FieldsFunc_def str_def isSpace_def)
  have l2: "getTotalWords (TrimSpace (concat (replicate 1001 [97, 32]))) = 1001"
    using getTotalWords_repeat_word [of 1001]
    by (simp add: getTotalWords_eq_length Fields_TrimSpace)
  have b1: "TrimSpace [32, 10] = []"
    by (simp add: TrimSpace_def isSpace_def)
  have min: "MIN_TOTAL_WORDS = 10" and max: "MAX_TOTAL_WORDS = 1000"
    by (simp_all add: MIN_TOTAL_WORDS_def MAX_TOTAL_WORDS_def)
  from validateReviewRequest_word_bounds [of ?short "\<lambda>r. r"] s1 s2
  have "validateReviewRequest (\<lambda>r. r) ?short = Some (Error (errTooShort 10))
        \<and> sublist (str ''10'') (errTooShort 10)"
    by (simp add: min)
  moreover from validateReviewRequest_word_bounds [of ?long "\<lambda>r. r"] l2
  have "validateReviewRequest (\<lambda>r. r) ?long = Some (Error (errTooLong 1000))
        \<and> sublist (str ''1000'') (errTooLong 1000)"
    by (simp add: max)
  moreover from validateReviewRequest_word_bounds [of ?blank "\<lambda>r. r"] b1
  have "validateReviewRequest (\<lambda>r. r) ?blank = Some (Error errEmptyContent)"
    by simp
  ultimately show ?thesis using s1 s2 l2 by blast
qed

text \<open>
  The claim as first stated fails for an empty content: its word count, 0, is below the
  minimum, and the message returned is the one of the empty-content check, which contains
  no \<open>10\<close>.
\<close>

theorem validateReviewRequest_empty_counterexample:
  "getTotalWords (TrimSpace []) < MIN_TOTAL_WORDS
   \<and> validateReviewRequest (\<lambda>r. r)
        \<lparr>Content = [], UserLevel = [], Requirement = [], GenerateCommentRequest.Category = [], Language = []\<rparr>
       = Some (Error errEmptyContent)
   \<and> \<not> sublist (str ''10'') errEmptyContent"
  by (simp add: validate_empty TrimSpace_def getTotalWords_def MIN_TOTAL_WORDS_def
      errEmptyContent_names_no_10)

lemma buildReviewPrompt_empty_level:
  assumes "UserLevel request = []"
  shows "\<exists>category language.
        buildReviewPrompt upper lower request =
          formatReviewPrompt (Content request) (str ''intermediate'') category
            (Requirement request) (getTotalWords (Content request)) language"
proof -
  define category where "category =
            (if GenerateCommentRequest.Category request \<noteq> []
             then (case writingCategories (ToLower lower (GenerateCommentRequest.Category request)) of
                     Some cat \<Rightarrow> cat
                   | None \<Rightarrow> str ''general writing'')
             else str ''general writing'')"
  define language where "language =
            (if Language request = str ''vi''
             then (str ''Ti'' @ [7871] @ str ''ng Vi'' @ [7879] @ str ''t'')
             else str ''English'')"
  have "buildReviewPrompt upper lower request =
          formatReviewPrompt (Content request) (str ''intermediate'') category
            (Requirement request) (getTotalWords (Content request)) language"
    unfolding buildReviewPrompt_def Let_def category_def language_def
    using assms by simp
  then show ?thesis by blast
qed

lemma formatReviewPrompt_level_line:
  "sublist (str ''s declared level: '' @ level @ [10])
     (formatReviewPrompt content level category requirement wordCount language)"
proof -
  have "formatReviewPrompt content level category requirement wordCount language =
      (reviewPromptText0 @ content @ [34, 10] @ [10] @ str ''CONTEXT INFORMATION:'' @ [10]
        @ str ''- Student'' @ [39])
      @ (str ''s declared level: '' @ level @ [10])
      @ (str ''- Writing category: '' @ category @ reviewPromptText3 @ requirement
        @ reviewPromptText4 @ Itoa wordCount @ reviewPromptText5 @ language
        @ reviewPromptText6)"
    by (simp add: formatReviewPrompt_def reviewPromptText1_def reviewPromptText2_def)
  then show ?thesis by (metis sublist_appendI)
qed

text \<open>
  Claim C10 (as amended). A review request whose \<open>user_level\<close> is the empty string and whose
  trimmed content has between 10 and 1000 words is accepted by \<open>validateReviewRequest\<close>: the
  level check is skipped. For every request with an empty \<open>user_level\<close>, whatever its
  content, \<open>buildReviewPrompt\<close> fills the level slot of the prompt with \<open>intermediate\<close>.
\<close>

theorem empty_user_level_default:
  "UserLevel request = [] \<longrightarrow>
     (MIN_TOTAL_WORDS \<le> getTotalWords (TrimSpace (Content request))
        \<and> getTotalWords (TrimSpace (Content request)) \<le> MAX_TOTAL_WORDS
        \<longrightarrow> validateReviewRequest tbl request = None)
     \<and> (\<exists>category language.
          buildReviewPrompt upper lower request =
            formatReviewPrompt (Content request) (str ''intermediate'') category
              (Requirement request) (getTotalWords (Content request)) language)
     \<and> sublist (str ''s declared level: intermediate'' @ [10])
          (buildReviewPrompt upper lower request)"
proof (intro impI conjI)
  assume e: "UserLevel request = []"
  show "validateReviewRequest tbl request = None"
    if "MIN_TOTAL_WORDS \<le> getTotalWords (TrimSpace (Content request))
        \<and> getTotalWords (TrimSpace (Content request)) \<le> MAX_TOTAL_WORDS"
    using that e by (simp add: validate_empty_level)
  from buildReviewPrompt_empty_level [OF e, of upper lower]
  show ex: "\<exists>category language.
          buildReviewPrompt upper lower request =
            formatReviewPrompt (Content request) (str ''intermediate'') category
              (Requirement request) (getTotalWords (Content request)) language" .
  then obtain category language where
    "buildReviewPrompt upper lower request =
            formatReviewPrompt (Content request) (str ''intermediate'') category
              (Requirement request) (getTotalWords (Content request)) language" by blast
  moreover have "str ''s declared level: intermediate'' = str ''s declared level: '' @ str ''intermediate''"
    by (simp add: str_def)
  ultimately show "sublist (str ''s declared level: intermediate'' @ [10])
          (buildReviewPrompt upper lower request)"
    using formatReviewPrompt_level_line [of "str ''intermediate''"] by simp
qed

theorem empty_user_level_default_witness:
  "getTotalWords (TrimSpace (str ''a b c d e f g h i j'')) = 10
   \<and> validateReviewRequest (\<lambda>r. r)
        \<lparr>Content = str ''a b c d e f g h i j'', UserLevel = [], Requirement = str ''essay'',
         GenerateCommentRequest.Category = [], Language = []\<rparr> = None
   \<and> sublist (str ''s declared level: intermediate'' @ [10])
        (buildReviewPrompt (\<lambda>r. r) (\<lambda>r. r)
          \<lparr>Content = str ''a b c d e f g h i j'', UserLevel = [], Requirement = str ''essay'',
           GenerateCommentRequest.Category = [], Language = []\<rparr>)"
proof -
  let ?req = "\<lparr>Content = str ''a b c d e f g h i j'', UserLevel = [], Requirement = str ''essay'',
         GenerateCommentRequest.Category = [], Language = []\<rparr>"
  have wc: "getTotalWords (TrimSpace (str ''a b c d e f g h i j'')) = 10"
    by (simp add: getTotalWords_def TrimSpace_def Fields_def FieldsFunc_def str_def isSpace_def)
  have lv: "UserLevel ?req = []" by simp
  from empty_user_level_default [of ?req "\<lambda>r. r" "\<lambda>r. r" "\<lambda>r. r"] lv wc
  have "validateReviewRequest (\<lambda>r. r) ?req = None
     \<and> sublist (str ''s declared level: intermediate'' @ [10])
          (buildReviewPrompt (\<lambda>r. r) (\<lambda>r. r) ?req)"
    by (simp add: MIN_TOTAL_WORDS_def MAX_TOTAL_WORDS_def)
  with wc show ?thesis by blast
qed

text \<open>
  The claim as first stated fails for a request whose content is too short: its empty
  \<open>user_level\<close> does not make the validator accept it.
\<close>

theorem empty_user_level_counterexample:
  "UserLevel \<lparr>Content = str ''too short'', UserLevel = [], Requirement = [], GenerateCommentRequest.Category = [],
       Language = []\<rparr> = []
   \<and> validateReviewRequest (\<lambda>r. r)
        \<lparr>Content = str ''too short'', UserLevel = [], Requirement = [], GenerateCommentRequest.Category = [],
         Language = []\<rparr> = Some (Error (errTooShort 10))"
  by (simp add: validateReviewRequest_def Let_def MIN_TOTAL_WORDS_def getTotalWords_def
      TrimSpace_def Fields_def FieldsFunc_def str_def isSpace_def)

section \<open>Properties of the assignment handler\<close>

lemma distributeLoop_other:
  "k \<notin> set ts \<Longrightarrow> distributeLoop b r i ts m k = m k"
  by (induction ts arbitrary: i m) (auto simp: Let_def)

lemma distributeLoop_dom: "dom (distributeLoop b r i ts m) = dom m \<union> set ts"
  by (induction ts arbitrary: i m) (auto simp: Let_def)

lemma distributeLoop_nth:
  "distinct ts \<Longrightarrow> j < length ts \<Longrightarrow>
     distributeLoop b r i ts m (ts ! j) = Some (b + (if int (i + j) < r then 1 else 0))"
proof (induction ts arbitrary: i m j)
  case Nil
  then show ?case by simp
next
  case (Cons t ts)
  show ?case
  proof (cases j)
    case 0
    from Cons.prems have "t \<notin> set ts" by simp
    then show ?thesis using 0
      by (simp add: Let_def distributeLoop_other mapIndex_def)
  next
    case (Suc j')
    with Cons.prems have "distinct ts" and "j' < length ts" by simp_all
    from Cons.IH [OF this] show ?thesis using Suc by (simp add: Let_def)
  qed
qed

lemma sum_extra: "0 \<le> r \<Longrightarrow> (\<Sum>j<n. if int j < r then (1::int) else 0) = min (int n) r"
  by (induction n) auto

lemma sum_distribution:
  assumes "0 \<le> r" and "r \<le> int n"
  shows "(\<Sum>j<n. b + (if int j < r then (1::int) else 0)) = int n * b + r"
proof -
  have "(\<Sum>j<n. b + (if int j < r then (1::int) else 0)) =
        (\<Sum>j<n. b) + (\<Sum>j<n. if int j < r then (1::int) else 0)"
    by (rule sum.distrib)
  also have "\<dots> = int n * b + min (int n) r"
    using assms by (simp add: sum_extra)
  finally show ?thesis using assms by simp
qed

lemma distributionTotal_distinct:
  assumes d: "distinct ts" and dm: "dom m = set ts"
    and v: "\<forall>j<length ts. m (ts ! j) = Some (f j)"
  shows "distributionTotal m = (\<Sum>j<length ts. f j)"
proof -
  have e: "map (mapIndex m) ts = map f [0..<length ts]"
    by (rule nth_equalityI) (use v in \<open>auto simp: mapIndex_def\<close>)
  have "distributionTotal m = (\<Sum>k\<in>set ts. mapIndex m k)"
    by (simp add: distributionTotal_def dm)
  also have "\<dots> = sum_list (map (mapIndex m) ts)"
    using d by (simp add: sum_list_distinct_conv_sum_set)
  also have "\<dots> = sum_list (map f [0..<length ts])"
    by (simp only: e)
  also have "\<dots> = (\<Sum>j<length ts. f j)"
    by (simp add: sum_list_sum_nth atLeast0LessThan)
  finally show ?thesis .
qed

lemma sdiv_pos: "0 < (k::int) \<Longrightarrow> 0 < l \<Longrightarrow> k sdiv l = k div l"
  by (simp add: signed_divide_int_def)

lemma smod_pos: "0 < (k::int) \<Longrightarrow> 0 < l \<Longrightarrow> k smod l = k mod l"
  by (simp add: signed_modulo_int_def)

text \<open>
  Claim C1 (as amended). For a non-empty list of pairwise distinct question types and a
  positive total, \<open>distributeQuestionTypes\<close> returns a map over exactly these types in
  which the type at position \<open>i\<close> has the floor of total divided by the number of types,
  plus one if \<open>i\<close> is below total modulo the number of types; the counts sum to the total.
\<close>

theorem distributeQuestionTypes_distinct:
  assumes "types \<noteq> []" and "0 < tot" and "distinct types"
  shows "\<exists>distribution.
           distributeQuestionTypes types tot = Inr distribution
           \<and> dom distribution = set types
           \<and> (\<forall>i<length types.
                 distribution (types ! i) =
                   Some (tot div int (length types)
                         + (if int i < tot mod int (length types) then 1 else 0)))
           \<and> distributionTotal distribution = tot"
proof -
  let ?n = "int (length types)"
  let ?d = "distributeLoop (tot div ?n) (tot mod ?n) 0 types Map.empty"
  from assms(1) have n: "0 < ?n" by simp
  have run: "distributeQuestionTypes types tot = Inr ?d"
    using assms(1) n assms(2)
    by (simp add: distributeQuestionTypes_def Let_def sdiv_pos smod_pos)
  have dm: "dom ?d = set types" by (simp add: distributeLoop_dom)
  have v: "\<forall>i<length types. ?d (types ! i) =
             Some (tot div ?n + (if int i < tot mod ?n then 1 else 0))"
    using distributeLoop_nth [OF assms(3), of _ "tot div ?n" "tot mod ?n" 0 Map.empty]
    by simp
  have r0: "0 \<le> tot mod ?n" and r1: "tot mod ?n \<le> ?n"
    using n by (simp_all add: less_imp_le)
  have "distributionTotal ?d =
          (\<Sum>j<length types. tot div ?n + (if int j < tot mod ?n then 1 else 0))"
    using assms(3) dm v by (rule distributionTotal_distinct)
  also have "\<dots> = ?n * (tot div ?n) + tot mod ?n"
    using r0 r1 by (rule sum_distribution)
  also have "\<dots> = tot" by simp
  finally have s: "distributionTotal ?d = tot" .
  from run dm v s show ?thesis by blast
qed

theorem distributeQuestionTypes_distinct_witness:
  "[str ''Multiple Choice'', str ''Essay'', str ''Short Answer''] \<noteq> []
   \<and> (0::int) < 10
   \<and> distinct [str ''Multiple Choice'', str ''Essay'', str ''Short Answer'']
   \<and> distributeQuestionTypes [str ''Multiple Choice'', str ''Essay'', str ''Short Answer''] 10
       = Inr [str ''Multiple Choice'' \<mapsto> 4, str ''Essay'' \<mapsto> 3, str ''Short Answer'' \<mapsto> 3]
   \<and> distributionTotal
        [str ''Multiple Choice'' \<mapsto> 4, str ''Essay'' \<mapsto> 3, str ''Short Answer'' \<mapsto> 3] = 10"
proof -
  let ?ts = "[str ''Multiple Choice'', str ''Essay'', str ''Short Answer'']"
  let ?m = "[str ''Multiple Choice'' \<mapsto> 4::int, str ''Essay'' \<mapsto> 3, str ''Short Answer'' \<mapsto> 3]"
  have h1: "?ts \<noteq> []" by simp
  have h2: "(0::int) < 10" by simp
  have h3: "distinct ?ts" by (simp add: str_def)
  have ev: "distributeQuestionTypes ?ts 10 = Inr ?m"
    by (simp add: distributeQuestionTypes_def Let_def signed_divide_int_def
        signed_modulo_int_def mapIndex_def str_def)
  from distributeQuestionTypes_distinct [OF h1 h2 h3] ev
  have "distributionTotal ?m = 10" by auto
  with h1 h2 h3 ev show ?thesis by blast
qed

text \<open>
  The claim as first stated fails when a type is listed twice: the request passes
  \<open>validateRequest\<close>, both occurrences write the same key of the map, the last one wins,
  and the counts no longer sum to the total.
\<close>

theorem distributeQuestionTypes_duplicate_counterexample:
  "validateRequest \<lparr>GenerateQuizzesRequest.Topic = str ''Travel'', AssignmentTypes = [str ''Essay'', str ''Essay''],
       EnglishLevel = str ''B1 - Intermediate'', TotalQuestions = 3\<rparr> = None
   \<and> distributeQuestionTypes [str ''Essay'', str ''Essay''] 3 = Inr [str ''Essay'' \<mapsto> 1]
   \<and> distributionTotal [str ''Essay'' \<mapsto> 1] = 1"
  by (simp add: validateRequest_def Let_def TrimSpace_def Fields_def FieldsFunc_def isSpace_def
      distributeQuestionTypes_def signed_divide_int_def signed_modulo_int_def mapIndex_def
      distributionTotal_def str_def)

text \<open>
  Claim C3. A candidate item of type \<open>Multiple Choice\<close> with a non-empty question is accepted
  by \<open>isValidQuiz\<close> exactly if it has at least two options and a correct index that is at
  least 0 and below the number of options. So an item with one option is rejected, whatever
  its index, and one with two options and index 0 is accepted.
\<close>

theorem isValidQuiz_multiple_choice:
  "Type quiz = str ''Multiple Choice'' \<and> Question quiz \<noteq> [] \<longrightarrow>
     (isValidQuiz quiz \<longleftrightarrow>
        2 \<le> length (Options quiz) \<and> 0 \<le> CorrectIndex quiz
        \<and> CorrectIndex quiz < int (length (Options quiz)))
     \<and> (length (Options quiz) = 1 \<longrightarrow> \<not> isValidQuiz quiz)
     \<and> (length (Options quiz) = 2 \<and> CorrectIndex quiz = 0 \<longrightarrow> isValidQuiz quiz)"
  by (auto simp: isValidQuiz_def)

theorem isValidQuiz_multiple_choice_witness:
  "Type \<lparr>ID = 0, Type = str ''Multiple Choice'', Question = str ''Pick one'', Answer = [],
         Options = [str ''A''], CorrectIndex = 0, Explanation = []\<rparr> = str ''Multiple Choice''
   \<and> Question \<lparr>ID = 0, Type = str ''Multiple Choice'', Question = str ''Pick one'', Answer = [],
         Options = [str ''A''], CorrectIndex = 0, Explanation = []\<rparr> \<noteq> []
   \<and> \<not> isValidQuiz \<lparr>ID = 0, Type = str ''Multiple Choice'', Question = str ''Pick one'',
         Answer = [], Options = [str ''A''], CorrectIndex = 0, Explanation = []\<rparr>
   \<and> isValidQuiz \<lparr>ID = 0, Type = str ''Multiple Choice'', Question = str ''Pick one'',
         Answer = [], Options = [str ''A'', str ''B''], CorrectIndex = 0, Explanation = []\<rparr>
   \<and> convertQuizzes [str ''Multiple Choice'']
        [\<lparr>GeminiQuiz.Type = str ''Multiple Choice'', GeminiQuiz.Question = str ''Pick one'',
          GeminiQuiz.Answer = [], GeminiQuiz.Options = [str ''A''],
          GeminiQuiz.CorrectIndex = 0, GeminiQuiz.Explanation = []\<rparr>,
         \<lparr>GeminiQuiz.Type = str ''Multiple Choice'', GeminiQuiz.Question = str ''Pick one'',
          GeminiQuiz.Answer = [], GeminiQuiz.Options = [str ''A'', str ''B''],
          GeminiQuiz.CorrectIndex = 0, GeminiQuiz.Explanation = []\<rparr>]
       = [\<lparr>ID = 0, Type = str ''Multiple Choice'', Question = str ''Pick one'', Answer = [],
           Options = [str ''A'', str ''B''], CorrectIndex = 0, Explanation = []\<rparr>]"
proof -
  let ?one = "\<lparr>ID = 0, Type = str ''Multiple Choice'', Question = str ''Pick one'', Answer = [],
         Options = [str ''A''], CorrectIndex = 0, Explanation = []\<rparr>"
  let ?two = "\<lparr>ID = 0, Type = str ''Multiple Choice'', Question = str ''Pick one'', Answer = [],
         Options = [str ''A'', str ''B''], CorrectIndex = 0, Explanation = []\<rparr>"
  have q: "str ''Pick one'' \<noteq> []" by (simp add: str_def)
  have tr: "TrimSpace (str ''Pick one'') = str ''Pick one''" "TrimSpace [] = []"
    by (simp_all add: TrimSpace_def str_def isSpace_def)
  have a: "\<not> isValidQuiz ?one"
    using isValidQuiz_multiple_choice [of ?one] q by simp
  have b: "isValidQuiz ?two"
    using isValidQuiz_multiple_choice [of ?two] q by simp
  from a b tr q show ?thesis by (simp add: Let_def)
qed






section \<open>Properties of the parser of the review answer\<close>

text \<open>
  On the strict path the parser does what the claim says: a result never has an empty list
  of suggestions, and an empty decoded list is replaced by the one default entry.
\<close>

lemma parseGeminiReviewResponse_strict:
  assumes "unmarshalReview
             (TrimSpace (TrimSuffix (TrimPrefix (TrimSpace response) (str ''```json''))
                (str ''```''))) = Inr reviewData"
    and "parseGeminiReviewResponse unmarshalReview unmarshalFallback response = Inr d"
  shows "Suggestions d \<noteq> []
         \<and> (Suggestions reviewData = [] \<longrightarrow> Suggestions d = [defaultSuggestion])
         \<and> (Suggestions reviewData \<noteq> [] \<longrightarrow> Suggestions d = Suggestions reviewData)"
  using assms
  by (auto simp: parseGeminiReviewResponse_def Let_def split: if_splits)

text \<open>
  Claim C2 (the code departs from it). When the strict decoding fails and the fallback
  decoding succeeds, \<open>parseGeminiReviewResponse\<close> returns at once, with one suggestion per
  decoded string: if the fallback decoded no suggestion, the list returned is empty, and no
  default entry is put in.
\<close>

theorem parseGeminiReviewResponse_fallback_empty:
  "unmarshalReview
      (TrimSpace (TrimSuffix (TrimPrefix (TrimSpace response) (str ''```json'')) (str ''```'')))
     = Inl err
   \<and> unmarshalFallback
      (TrimSpace (TrimSuffix (TrimPrefix (TrimSpace response) (str ''```json'')) (str ''```'')))
     = Inr fb
   \<and> fallback.Suggestions fb = []
   \<longrightarrow> parseGeminiReviewResponse unmarshalReview unmarshalFallback response =
         Inr \<lparr>EstimatedLevel = fallback.EstimatedLevel fb,
              Scores = fallback.Scores fb,
              OverallFeedback = fallback.OverallFeedback fb,
              StrengthPoints = fallback.StrengthPoints fb,
              ImprovementAreas = fallback.ImprovementAreas fb,
              Suggestions = [],
              CorrectedVersion = fallback.CorrectedVersion fb\<rparr>"
  by (simp add: parseGeminiReviewResponse_def Let_def)

text \<open>
  The answer \<^verbatim>\<open>{"overall_feedback":"ok","suggestions":["x"],"suggestions":[]}\<close> is one
  the code can receive. \<open>json.Unmarshal\<close> takes the members of an object in their order and
  decodes a repeated key again into the same field. Into \<open>GeminiReviewData\<close> the string
  \<^verbatim>\<open>"x"\<close> is a type error, so the strict decoding fails; into the fallback struct the first
  \<open>suggestions\<close> gives one string and the second, an empty array, resets the field to the
  empty slice, so the fallback decoding succeeds with no suggestion. The decoders below
  return what \<open>json.Unmarshal\<close> returns on this answer.
\<close>

theorem parseGeminiReviewResponse_fallback_empty_witness:
  \<open>parseGeminiReviewResponse
     (\<lambda>r. Inl (str ''json: cannot unmarshal string into Go struct field''))
     (\<lambda>r. if r = str ''{"overall_feedback":"ok","suggestions":["x"],"suggestions":[]}''
          then Inr \<lparr>fallback.EstimatedLevel = [], fallback.Scores = (0::int, 0::int, 0::int, 0::int, 0::int),
                    fallback.OverallFeedback = str ''ok'', fallback.StrengthPoints = [],
                    fallback.ImprovementAreas = [], fallback.Suggestions = [],
                    fallback.CorrectedVersion = []\<rparr>
          else Inl (str ''unexpected end of JSON input''))
     (str ''{"overall_feedback":"ok","suggestions":["x"],"suggestions":[]}'')
   = Inr \<lparr>EstimatedLevel = [], Scores = (0, 0, 0, 0, 0), OverallFeedback = str ''ok'',
          StrengthPoints = [], ImprovementAreas = [], Suggestions = [],
          CorrectedVersion = []\<rparr>\<close>
proof -
  let ?text = \<open>str ''{"overall_feedback":"ok","suggestions":["x"],"suggestions":[]}''\<close>
  let ?fb = "\<lparr>fallback.EstimatedLevel = [], fallback.Scores = (0::int, 0::int, 0::int, 0::int, 0::int),
                    fallback.OverallFeedback = str ''ok'', fallback.StrengthPoints = [],
                    fallback.ImprovementAreas = [], fallback.Suggestions = [],
                    fallback.CorrectedVersion = []\<rparr>"
  have t1: "TrimSpace ?text = ?text"
    by (simp add: TrimSpace_def str_def isSpace_def)
  have t2: "TrimPrefix ?text (str ''```json'') = ?text"
    by (simp add: TrimPrefix_def str_def)
  have t3: "TrimSuffix ?text (str ''```'') = ?text"
    by (simp add: TrimSuffix_def str_def suffix_to_prefix)
  have clean: "TrimSpace (TrimSuffix (TrimPrefix (TrimSpace ?text) (str ''```json'')) (str ''```''))
      = ?text"
    by (simp only: t1 t2 t3)
  show ?thesis
    using parseGeminiReviewResponse_fallback_empty
      [of "\<lambda>r. Inl (str ''json: cannot unmarshal string into Go struct field'')" ?text
          "str ''json: cannot unmarshal string into Go struct field''"
          "\<lambda>r. if r = ?text then Inr ?fb else Inl (str ''unexpected end of JSON input'')" ?fb]
    by (simp only: clean) simp
qed

section \<open>Properties of the caches\<close>

text \<open>
  The two statements both handlers share: the store writes the expiry \<open>now + ttl\<close>; the
  lookup of the key hits with the stored value at every instant strictly before the expiry
  and misses from the expiry on.
\<close>

lemma cache_store_lookup:
  "(cacheStore c k v now ttl) k = Some \<lparr>Data = v, ExpiresAt = now + ttl\<rparr>
   \<and> (t < now + ttl \<longrightarrow> cacheLookup (cacheStore c k v now ttl) k t = Some v)
   \<and> (now + ttl \<le> t' \<longrightarrow> cacheLookup (cacheStore c k v now ttl) k t' = None)"
  by (simp add: cacheStore_def cacheLookup_def)

text \<open>
  The round trip through \<open>GenerateAssignment\<close>: once a request has been answered from the
  upstream service at instant \<open>now\<close>, the same request at a later instant before
  \<open>now\<close> plus ten minutes is answered from the cache with the same response, whatever the
  upstream service would say then; from that instant on the cache no longer answers.
\<close>

lemma GenerateAssignment_round_trip:
  assumes "validateRequest request = None"
    and "cacheLookup c (generateCacheKey lower request) now = None"
    and "generateQuizzesWithGemini unmarshal first second request = Inr quizResponse"
  shows "\<exists>c'. GenerateAssignment lower unmarshal first second (Some request) now c
                 = (HttpJSON 201 quizResponse, c')
           \<and> (\<forall>t u f s. t < now + 600000000000 \<longrightarrow>
                  GenerateAssignment lower u f s (Some request) t c'
                    = (HttpJSON 200 quizResponse, c'))
           \<and> (\<forall>t. now + 600000000000 \<le> t \<longrightarrow>
                  cacheLookup c' (generateCacheKey lower request) t = None)"
proof -
  let ?k = "generateCacheKey lower request"
  let ?c' = "cacheStore c ?k quizResponse now (10 * 60000000000)"
  have "GenerateAssignment lower unmarshal first second (Some request) now c
          = (HttpJSON 201 quizResponse, ?c')"
    using assms by (simp add: GenerateAssignment_def Let_def)
  moreover have "GenerateAssignment lower u f s (Some request) t ?c'
                    = (HttpJSON 200 quizResponse, ?c')" if "t < now + 600000000000" for t u f s
    using that assms(1)
    by (simp add: GenerateAssignment_def Let_def cacheLookup_def cacheStore_def)
  moreover have "cacheLookup ?c' ?k t = None" if "now + 600000000000 \<le> t" for t
    using that by (simp add: cacheLookup_def cacheStore_def)
  ultimately show ?thesis by blast
qed

lemma GenerateReview_short_key_example:
  "validateReviewRequest (\<lambda>r. r)
     \<lparr>Content = str ''a b c d e f g h i j'', UserLevel = [], Requirement = str ''essay'',
      GenerateCommentRequest.Category = [], Language = []\<rparr> = None
   \<and> generateReviewCacheKey (\<lambda>r. r)
     \<lparr>Content = str ''a b c d e f g h i j'', UserLevel = [], Requirement = str ''essay'',
      GenerateCommentRequest.Category = [], Language = []\<rparr> = str ''1b-10''
   \<and> len (str ''1b-10'') = 5"
  by (simp add: validateReviewRequest_def generateReviewCacheKey_def Let_def
      MIN_TOTAL_WORDS_def MAX_TOTAL_WORDS_def getTotalWords_def TrimSpace_def Fields_def
      FieldsFunc_def isSpace_def ToLower_def len_def utf8Len_def natHex.simps Itoa_def
      natDigits.simps str_def)

text \<open>
  Claim C5 (the code departs from it). In \<open>GenerateReview\<close>, let a valid request miss the
  cache at instant \<open>now\<close> and be answered by the upstream service: the handler writes the
  response and stores it under the key of the request, with the expiry \<open>now\<close> plus
  \<open>CACHE_DURATION\<close>. At every instant strictly before that expiry the lookup of the key
  hits with exactly the stored response; from the expiry on it misses. But when the same
  request comes in before the expiry and the key is shorter than ten bytes, the hit branch
  panics at \<open>cacheKey[:10]\<close> before the stored response is written: the handler does not
  return it. \<open>GenerateAssignment\<close>, which has no such statement, returns it.
\<close>

theorem GenerateReview_hit_panics:
  "validateReviewRequest upper request = None
   \<and> cacheLookup c (generateReviewCacheKey lower request) now = None
   \<and> generate request = Inr reviewResponse
   \<and> len (generateReviewCacheKey lower request) < 10
   \<and> t < now + CACHE_DURATION
   \<and> now + CACHE_DURATION \<le> t'
   \<longrightarrow>
     GenerateReview upper lower generate (Some request) now c
       = (HttpJSON 200 reviewResponse,
          cacheStore c (generateReviewCacheKey lower request) reviewResponse now CACHE_DURATION)
     \<and> cacheLookup
          (cacheStore c (generateReviewCacheKey lower request) reviewResponse now CACHE_DURATION)
          (generateReviewCacheKey lower request) t = Some reviewResponse
     \<and> cacheLookup
          (cacheStore c (generateReviewCacheKey lower request) reviewResponse now CACHE_DURATION)
          (generateReviewCacheKey lower request) t' = None
     \<and> GenerateReview upper lower generate' (Some request) t
          (cacheStore c (generateReviewCacheKey lower request) reviewResponse now CACHE_DURATION)
       = (HandlerPanic PanicSliceBounds,
          cacheStore c (generateReviewCacheKey lower request) reviewResponse now CACHE_DURATION)"
proof (intro impI)
  let ?k = "generateReviewCacheKey lower request"
  let ?c' = "cacheStore c ?k reviewResponse now CACHE_DURATION"
  assume a: "validateReviewRequest upper request = None
   \<and> cacheLookup c ?k now = None
   \<and> generate request = Inr reviewResponse
   \<and> len ?k < 10
   \<and> t < now + CACHE_DURATION
   \<and> now + CACHE_DURATION \<le> t'"
  have first: "GenerateReview upper lower generate (Some request) now c
       = (HttpJSON 200 reviewResponse, ?c')"
    using a by (simp add: GenerateReview_def Let_def)
  have hit: "cacheLookup ?c' ?k t = Some reviewResponse"
    using a by (simp add: cacheLookup_def cacheStore_def)
  have miss: "cacheLookup ?c' ?k t' = None"
    using a by (simp add: cacheLookup_def cacheStore_def)
  have again: "GenerateReview upper lower generate' (Some request) t ?c'
       = (HandlerPanic PanicSliceBounds, ?c')"
    using a hit by (simp add: GenerateReview_def Let_def)
  from first hit miss again
  show "GenerateReview upper lower generate (Some request) now c
       = (HttpJSON 200 reviewResponse, ?c')
     \<and> cacheLookup ?c' ?k t = Some reviewResponse
     \<and> cacheLookup ?c' ?k t' = None
     \<and> GenerateReview upper lower generate' (Some request) t ?c'
       = (HandlerPanic PanicSliceBounds, ?c')"
    by blast
qed

theorem GenerateReview_hit_panics_witness:
  "GenerateReview (\<lambda>r. r) (\<lambda>r. r) (\<lambda>request. Inr (42::nat))
     (Some \<lparr>Content = str ''a b c d e f g h i j'', UserLevel = [], Requirement = str ''essay'',
        GenerateCommentRequest.Category = [], Language = []\<rparr>) 0 Map.empty
     = (HttpJSON 200 42, cacheStore Map.empty (str ''1b-10'') 42 0 CACHE_DURATION)
   \<and> cacheLookup (cacheStore Map.empty (str ''1b-10'') (42::nat) 0 CACHE_DURATION)
        (str ''1b-10'') 5 = Some 42
   \<and> cacheLookup (cacheStore Map.empty (str ''1b-10'') (42::nat) 0 CACHE_DURATION)
        (str ''1b-10'') 3600000000000 = None
   \<and> GenerateReview (\<lambda>r. r) (\<lambda>r. r) (\<lambda>request. Inr (42::nat))
     (Some \<lparr>Content = str ''a b c d e f g h i j'', UserLevel = [], Requirement = str ''essay'',
        GenerateCommentRequest.Category = [], Language = []\<rparr>) 5
     (cacheStore Map.empty (str ''1b-10'') 42 0 CACHE_DURATION)
     = (HandlerPanic PanicSliceBounds,
        cacheStore Map.empty (str ''1b-10'') 42 0 CACHE_DURATION)"
proof -
  let ?req = "\<lparr>Content = str ''a b c d e f g h i j'', UserLevel = [], Requirement = str ''essay'',
        GenerateCommentRequest.Category = [], Language = []\<rparr>"
  note ex = GenerateReview_short_key_example
  have v: "validateReviewRequest (\<lambda>r. r) ?req = None" using ex by blast
  have k: "generateReviewCacheKey (\<lambda>r. r) ?req = str ''1b-10''" using ex by blast
  have l: "len (generateReviewCacheKey (\<lambda>r. r) ?req) < 10" using ex by simp
  have m: "cacheLookup (Map.empty :: gostring \<rightharpoonup> nat cacheItem)
             (generateReviewCacheKey (\<lambda>r. r) ?req) 0 = None"
    by (simp add: cacheLookup_def)
  have g: "(\<lambda>request::GenerateCommentRequest. Inr (42::nat) :: error + nat) ?req = Inr 42"
    by simp
  have t1: "(5::int) < 0 + CACHE_DURATION" and t2: "0 + CACHE_DURATION \<le> 3600000000000"
    by (simp_all add: CACHE_DURATION_def)
  from GenerateReview_hit_panics
    [of "\<lambda>r. r" ?req "Map.empty" "\<lambda>r. r" 0 "\<lambda>request. Inr (42::nat)" 42 5 3600000000000
        "\<lambda>request. Inr (42::nat)"]
    v k l m g t1 t2
  show ?thesis by simp
qed

text \<open>
  Claim C8 (as amended). After \<open>ClearReviewCache\<close>, a lookup in the review cache is a miss
  for every key and at every instant, in particular for a key that was stored in the review
  cache just before the clear. The assignment cache is left as it was: nothing clears it.
\<close>

theorem ClearReviewCache_lookup_miss:
  "cacheLookup (reviewCache (ClearReviewCache s)) k t = None
   \<and> cacheLookup
        (reviewCache (ClearReviewCache (s\<lparr>reviewCache := cacheStore (reviewCache s) k v now ttl\<rparr>)))
        k t = None
   \<and> cache (ClearReviewCache s) = cache s"
  by (simp add: ClearReviewCache_def cacheLookup_def)

text \<open>
  The claim as first stated speaks of the cache at large and fails for the assignment
  cache: a key stored there still hits after \<open>ClearReviewCache\<close>.
\<close>

theorem ClearReviewCache_assignment_counterexample:
  "cacheLookup
     (cache (ClearReviewCache
        \<lparr>cache = cacheStore Map.empty (str ''travel-Essay-B1-3'') (7::nat) 0 600000000000,
         reviewCache = (Map.empty :: gostring \<rightharpoonup> nat cacheItem)\<rparr>))
     (str ''travel-Essay-B1-3'') 5
   = Some 7"
  by (simp add: ClearReviewCache_def cacheLookup_def cacheStore_def)

end
